theory Spec2Isabelle
  imports Complex_Main "HOL-Library.Multiset"
begin

section \<open>Location games with reputation: the equilibrium candidate and its verifier\<close>

text \<open>
  The development embeds the four Python modules
  \<^verbatim>\<open>location_games_with_reputation_{2,3,4,n}_players.py\<close>.
  Python floats are modelled by the reals, Python lists of floats by \<open>real list\<close>, and the
  two verdict strings \<^verbatim>\<open>"Eq"\<close> and \<^verbatim>\<open>"No Eq"\<close> by HOL strings.  Every list read and
  list write goes through \<open>getE\<close> and \<open>setE\<close>, which raise \<open>IndexError\<close> exactly where
  Python does (negative indices count from the end of the list), the division in
  \<^verbatim>\<open>delta_distance\<close> raises \<open>ZeroDivisionError\<close> when its divisor is zero, and every
  \<^verbatim>\<open>x ** 2\<close> goes through \<open>squareE\<close>, which raises \<open>OverflowError\<close> when the square
  is too large for a double.  A function of the source is therefore a function into
  \<open>py_error + result\<close>.  The rounding of the floating-point operations is not modelled:
  sums, differences, products and quotients are those of the reals.  Two shortcuts are taken
  where they cannot change a result: a cell that was read and is not written in between is
  not read a second time (its value is kept in a bound variable), and the assignments to
  the literal candidates \<^verbatim>\<open>[0,0,0]\<close> and \<^verbatim>\<open>[0,0,0,0]\<close> at the literal indices 0 to 3,
  which are always in range, are written as list updates.
\<close>

subsection \<open>The Python run-time: exceptions, list reads and writes\<close>

datatype py_error = IndexError | ZeroDivisionError | OverflowError | TypeError

definition bindE :: "py_error + 'a \<Rightarrow> ('a \<Rightarrow> py_error + 'b) \<Rightarrow> py_error + 'b" where
  "bindE m f = (case m of Inl e \<Rightarrow> Inl e | Inr v \<Rightarrow> f v)"

definition py_index :: "nat \<Rightarrow> int \<Rightarrow> nat option" where
  \<comment> \<open>the slot a Python index denotes in a list of the given length, if any\<close>
  "py_index len i =
     (if 0 \<le> i \<and> i < int len then Some (nat i)
      else if - int len \<le> i \<and> i < 0 then Some (nat (int len + i))
      else None)"

definition getE :: "'a list \<Rightarrow> int \<Rightarrow> py_error + 'a" where
  \<comment> \<open>\<^verbatim>\<open>xs[i]\<close>\<close>
  "getE xs i = (case py_index (length xs) i of None \<Rightarrow> Inl IndexError | Some k \<Rightarrow> Inr (xs ! k))"

definition setE :: "'a list \<Rightarrow> int \<Rightarrow> 'a \<Rightarrow> py_error + 'a list" where
  \<comment> \<open>\<^verbatim>\<open>xs[i] = v\<close>\<close>
  "setE xs i v =
     (case py_index (length xs) i of None \<Rightarrow> Inl IndexError | Some k \<Rightarrow> Inr (xs[k := v]))"

text \<open>
  Python's \<^verbatim>\<open>x ** 2\<close> on a float raises \<open>OverflowError\<close> when the result is not a finite
  double, that is when the square rounds to infinity: from \<open>2^1024 - 2^970\<close> on, the
  midpoint between the largest double and \<open>2^1024\<close>.  (The other float operations of the
  source return \<^verbatim>\<open>inf\<close> silently and raise nothing.)
\<close>

definition float_overflow_bound :: real where
  "float_overflow_bound = 2 ^ 1024 - 2 ^ 970"

definition squareE :: "real \<Rightarrow> py_error + real" where
  \<comment> \<open>\<^verbatim>\<open>x ** 2\<close>\<close>
  "squareE x = (if float_overflow_bound \<le> x\<^sup>2 then Inl OverflowError else Inr (x\<^sup>2))"

text \<open>
  Sequencing of checks.  A check yields \<open>True\<close> when the source executes
  \<^verbatim>\<open>return("No Eq")\<close> at it.  \<open>orE a b\<close> runs \<open>a\<close> and, unless it rejected, \<open>b\<close>
  (also Python's short-circuit \<^verbatim>\<open>or\<close>); \<open>andE a b\<close> is the short-circuit \<^verbatim>\<open>and\<close>;
  \<open>unlessE a b\<close> is \<^verbatim>\<open>if a: continue\<close> followed by \<open>b\<close>; \<open>thenE chk rest\<close> returns
  \<^verbatim>\<open>"No Eq"\<close> when \<open>chk\<close> rejected and goes on with \<open>rest\<close> otherwise.
\<close>

definition orE :: "py_error + bool \<Rightarrow> py_error + bool \<Rightarrow> py_error + bool" where
  "orE a b = bindE a (\<lambda>r. if r then Inr True else b)"

definition andE :: "py_error + bool \<Rightarrow> py_error + bool \<Rightarrow> py_error + bool" where
  "andE a b = bindE a (\<lambda>r. if r then b else Inr False)"

definition unlessE :: "py_error + bool \<Rightarrow> py_error + bool \<Rightarrow> py_error + bool" where
  "unlessE a b = bindE a (\<lambda>r. if r then Inr False else b)"

definition thenE :: "py_error + bool \<Rightarrow> py_error + string \<Rightarrow> py_error + string" where
  "thenE chk rest = bindE chk (\<lambda>rejected. if rejected then Inr ''No Eq'' else rest)"

definition eqE :: "real list \<Rightarrow> int \<Rightarrow> int \<Rightarrow> py_error + bool" where
  \<comment> \<open>\<^verbatim>\<open>X[i] == X[j]\<close>\<close>
  "eqE X i j = bindE (getE X i) (\<lambda>a. bindE (getE X j) (\<lambda>b. Inr (a = b)))"

definition neqE :: "real list \<Rightarrow> int \<Rightarrow> int \<Rightarrow> py_error + bool" where
  \<comment> \<open>\<^verbatim>\<open>X[i] != X[j]\<close>\<close>
  "neqE X i j = bindE (getE X i) (\<lambda>a. bindE (getE X j) (\<lambda>b. Inr (a \<noteq> b)))"

definition gtE :: "py_error + real \<Rightarrow> real \<Rightarrow> py_error + bool" where
  \<comment> \<open>\<^verbatim>\<open>expr > payoff\<close>\<close>
  "gtE d payoff = bindE d (\<lambda>v. Inr (v > payoff))"

subsection \<open>The capture half-width\<close>

definition delta_distance :: "real \<Rightarrow> py_error + real" where
  \<comment> \<open>\<^verbatim>\<open>return(1 / (4 * c))\<close>\<close>
  "delta_distance c = (if 4 * c = 0 then Inl ZeroDivisionError else Inr (1 / (4 * c)))"

subsection \<open>Two players\<close>

text \<open>
  The four payoff expressions compared at lines 122--124 of the two-player module: what a
  player earns where the candidate puts it, and what it earns by jumping to the far side of
  its rival.  The two comparisons are joined by \<^verbatim>\<open>and\<close>: the payoffs of the second
  player are evaluated only when the first comparison holds.
\<close>

definition stay_payoff_left_2 :: "real \<Rightarrow> real \<Rightarrow> real \<Rightarrow> real \<Rightarrow> py_error + real" where
  \<comment> \<open>\<^verbatim>\<open>((X[0] + X[1]) / 2) - c * (X[0] - R[0])**2\<close>\<close>
  "stay_payoff_left_2 c x0 x1 r0 = bindE (squareE (x0 - r0)) (\<lambda>s. Inr (((x0 + x1) / 2) - c * s))"

definition jump_payoff_left_2 :: "real \<Rightarrow> real \<Rightarrow> real \<Rightarrow> py_error + real" where
  \<comment> \<open>\<^verbatim>\<open>1 - X[1] - c * (X[1]-R[0])**2\<close>\<close>
  "jump_payoff_left_2 c x1 r0 = bindE (squareE (x1 - r0)) (\<lambda>s. Inr (1 - x1 - c * s))"

definition stay_payoff_right_2 :: "real \<Rightarrow> real \<Rightarrow> real \<Rightarrow> real \<Rightarrow> py_error + real" where
  \<comment> \<open>\<^verbatim>\<open>1 - ((X[0] + X[1]) / 2) - c * (X[1]-R[1])**2\<close>\<close>
  "stay_payoff_right_2 c x0 x1 r1 = bindE (squareE (x1 - r1)) (\<lambda>s. Inr (1 - ((x0 + x1) / 2) - c * s))"

definition jump_payoff_right_2 :: "real \<Rightarrow> real \<Rightarrow> real \<Rightarrow> py_error + real" where
  \<comment> \<open>\<^verbatim>\<open>X[0] - c * (X[0] - R[1])**2\<close>\<close>
  "jump_payoff_right_2 c x0 r1 = bindE (squareE (x0 - r1)) (\<lambda>s. Inr (x0 - c * s))"

definition separated_candidate_2 :: "real list \<Rightarrow> real \<Rightarrow> py_error + real list" where
  \<comment> \<open>\<^verbatim>\<open>X = [0,0]\<close>, then \<^verbatim>\<open>X[0] = R[0] + delta\<close> and \<^verbatim>\<open>X[1] = R[1] - delta\<close>\<close>
  "separated_candidate_2 R delta =
     bindE (getE R 0) (\<lambda>r0. bindE (setE [0, 0] 0 (r0 + delta)) (\<lambda>X.
     bindE (getE R 1) (\<lambda>r1. setE X 1 (r1 - delta))))"

definition equilibrium_2_players :: "real list \<Rightarrow> real \<Rightarrow> py_error + string" where
  "equilibrium_2_players R_in c =
     (let R = sort R_in in
      bindE (delta_distance c) (\<lambda>delta.
      bindE (getE R 1) (\<lambda>r1. bindE (getE R 0) (\<lambda>r0.
      if r1 - r0 < 2 * delta then
        (if r1 - delta < 1 / 2 \<and> 1 / 2 < r0 + delta then Inr ''Eq'' else Inr ''No Eq'')
      else
        bindE (separated_candidate_2 R delta) (\<lambda>X.
        bindE (getE X 1) (\<lambda>x1. bindE (getE X 0) (\<lambda>x0.
        bindE (jump_payoff_left_2 c x1 r0) (\<lambda>jump_left.
        bindE (stay_payoff_left_2 c x0 x1 r0) (\<lambda>stay_left.
        if jump_left < stay_left then
          bindE (jump_payoff_right_2 c x0 r1) (\<lambda>jump_right.
          bindE (stay_payoff_right_2 c x0 x1 r1) (\<lambda>stay_right.
          if jump_right < stay_right then Inr ''Eq'' else Inr ''No Eq''))
        else Inr ''No Eq'')))))))))"

subsection \<open>Payoff and deviation expressions shared by the 3-, 4- and n-player verifiers\<close>

text \<open>
  The three modules repeat the same expressions, with the index of the last player written
  as a literal (2 or 3) or as \<^verbatim>\<open>nb_players - 1\<close>.  Here \<open>n\<close> is the number of players,
  \<open>p\<close> the index of the player whose reputation enters the cost, and \<open>j\<close> the index of
  the loop over the gaps.
\<close>

definition pay_single_left :: "real list \<Rightarrow> real list \<Rightarrow> real \<Rightarrow> py_error + real" where
  \<comment> \<open>\<^verbatim>\<open>((X[0] + X[1]) / 2) - (c * ((X[0] - R[0])**2))\<close>\<close>
  "pay_single_left X R c =
     bindE (getE X 0) (\<lambda>x0. bindE (getE X 1) (\<lambda>x1. bindE (getE R 0) (\<lambda>r0.
       bindE (squareE (x0 - r0)) (\<lambda>s. Inr (((x0 + x1) / 2) - (c * s))))))"

definition pay_paired_left :: "real list \<Rightarrow> real list \<Rightarrow> real \<Rightarrow> int \<Rightarrow> py_error + real" where
  \<comment> \<open>\<^verbatim>\<open>((X[0] + X[2]) / 4) - (c * ((X[0] - R[p])**2))\<close>\<close>
  "pay_paired_left X R c p =
     bindE (getE X 0) (\<lambda>x0. bindE (getE X 2) (\<lambda>x2. bindE (getE R p) (\<lambda>rp.
       bindE (squareE (x0 - rp)) (\<lambda>s. Inr (((x0 + x2) / 4) - (c * s))))))"

definition pay_single_right :: "real list \<Rightarrow> real list \<Rightarrow> real \<Rightarrow> int \<Rightarrow> py_error + real" where
  \<comment> \<open>\<^verbatim>\<open>(1 - ((X[n-1] + X[n-2]) / 2)) - (c * ((X[n-1] - R[n-1])**2))\<close>\<close>
  "pay_single_right X R c n =
     bindE (getE X (n - 1)) (\<lambda>xl. bindE (getE X (n - 2)) (\<lambda>xs. bindE (getE R (n - 1)) (\<lambda>rl.
       bindE (squareE (xl - rl)) (\<lambda>s. Inr ((1 - ((xl + xs) / 2)) - (c * s))))))"

definition pay_paired_right :: "real list \<Rightarrow> real list \<Rightarrow> real \<Rightarrow> int \<Rightarrow> int \<Rightarrow> py_error + real" where
  \<comment> \<open>\<^verbatim>\<open>(0.5 - ((X[n-1] + X[n-3]) / 4)) - (c * ((X[n-1] - R[p])**2))\<close>\<close>
  "pay_paired_right X R c n p =
     bindE (getE X (n - 1)) (\<lambda>xl. bindE (getE X (n - 3)) (\<lambda>xt. bindE (getE R p) (\<lambda>rp.
       bindE (squareE (xl - rp)) (\<lambda>s. Inr ((1 / 2 - ((xl + xt) / 4)) - (c * s))))))"

definition pay_interior :: "real list \<Rightarrow> int \<Rightarrow> py_error + real" where
  \<comment> \<open>\<^verbatim>\<open>((X[p + 1] - X[p - 1]) / 2)\<close>\<close>
  "pay_interior X p =
     bindE (getE X (p + 1)) (\<lambda>a. bindE (getE X (p - 1)) (\<lambda>b. Inr ((a - b) / 2)))"

definition dev_right :: "real list \<Rightarrow> real list \<Rightarrow> real \<Rightarrow> int \<Rightarrow> int \<Rightarrow> py_error + real" where
  \<comment> \<open>to the right of the last player: \<^verbatim>\<open>(1 - X[n-1]) - (c * ((X[n-1] - R[p])**2))\<close>\<close>
  "dev_right X R c n p =
     bindE (getE X (n - 1)) (\<lambda>xl. bindE (getE R p) (\<lambda>rp.
       bindE (squareE (xl - rp)) (\<lambda>s. Inr ((1 - xl) - (c * s)))))"

definition dev_left :: "real list \<Rightarrow> real list \<Rightarrow> real \<Rightarrow> int \<Rightarrow> py_error + real" where
  \<comment> \<open>to the left of the first player: \<^verbatim>\<open>X[0] - (c * ((X[0] - R[p])**2))\<close>\<close>
  "dev_left X R c p =
     bindE (getE X 0) (\<lambda>x0. bindE (getE R p) (\<lambda>rp.
       bindE (squareE (x0 - rp)) (\<lambda>s. Inr (x0 - (c * s)))))"

definition gap_right :: "real list \<Rightarrow> real list \<Rightarrow> real \<Rightarrow> int \<Rightarrow> int \<Rightarrow> py_error + real" where
  \<comment> \<open>\<^verbatim>\<open>((X[j + 1] - X[j]) / 2) - (c * ((X[j] - R[p])**2))\<close>\<close>
  "gap_right X R c j p =
     bindE (getE X (j + 1)) (\<lambda>a. bindE (getE X j) (\<lambda>xj. bindE (getE R p) (\<lambda>rp.
       bindE (squareE (xj - rp)) (\<lambda>s. Inr (((a - xj) / 2) - (c * s))))))"

definition gap_left :: "real list \<Rightarrow> real list \<Rightarrow> real \<Rightarrow> int \<Rightarrow> int \<Rightarrow> py_error + real" where
  \<comment> \<open>\<^verbatim>\<open>((X[j] - X[j - 1]) / 2) - (c * ((X[j] - R[p])**2))\<close>\<close>
  "gap_left X R c j p =
     bindE (getE X j) (\<lambda>xj. bindE (getE X (j - 1)) (\<lambda>b. bindE (getE R p) (\<lambda>rp.
       bindE (squareE (xj - rp)) (\<lambda>s. Inr (((xj - b) / 2) - (c * s))))))"

text \<open>
  The two consistency checks of a clustered boundary pair, the first statements of every
  verifier after the candidate is built:
  \<^verbatim>\<open>if X[0] == X[1] : if X[0] < R[1] or X[0] > R[0] + delta : return("No Eq")\<close> and
  \<^verbatim>\<open>if X[n-2] == X[n-1] : if X[n-1] < R[n-1] - delta or R[n-2] < X[n-1] : return("No Eq")\<close>.
\<close>

definition consistency_left :: "real list \<Rightarrow> real list \<Rightarrow> real \<Rightarrow> py_error + bool" where
  "consistency_left X R delta =
     andE (eqE X 0 1)
       (orE (bindE (getE X 0) (\<lambda>x0. bindE (getE R 1) (\<lambda>r1. Inr (x0 < r1))))
            (bindE (getE X 0) (\<lambda>x0. bindE (getE R 0) (\<lambda>r0. Inr (x0 > r0 + delta)))))"

definition consistency_right :: "real list \<Rightarrow> real list \<Rightarrow> real \<Rightarrow> int \<Rightarrow> py_error + bool" where
  "consistency_right X R delta n =
     andE (eqE X (n - 2) (n - 1))
       (orE (bindE (getE X (n - 1)) (\<lambda>xl. bindE (getE R (n - 1)) (\<lambda>rl. Inr (xl < rl - delta))))
            (bindE (getE R (n - 2)) (\<lambda>rs. bindE (getE X (n - 1)) (\<lambda>xl. Inr (rs < xl)))))"

text \<open>
  The loops over the gaps between two neighbouring players: to the right of the deviating
  player (\<^verbatim>\<open>if X[j] == X[j + 1] : continue\<close>) and to its left
  (\<^verbatim>\<open>if X[j] == X[j - 1] : continue\<close>).  The list argument is the \<^verbatim>\<open>range\<close> of the loop.
\<close>

fun right_gaps :: "real list \<Rightarrow> real list \<Rightarrow> real \<Rightarrow> real \<Rightarrow> int \<Rightarrow> int list \<Rightarrow> py_error + bool" where
  "right_gaps X R c payoff p [] = Inr False"
| "right_gaps X R c payoff p (j # js) =
     orE (unlessE (eqE X j (j + 1)) (gtE (gap_right X R c j p) payoff))
         (right_gaps X R c payoff p js)"

fun left_gaps :: "real list \<Rightarrow> real list \<Rightarrow> real \<Rightarrow> real \<Rightarrow> int \<Rightarrow> int list \<Rightarrow> py_error + bool" where
  "left_gaps X R c payoff p [] = Inr False"
| "left_gaps X R c payoff p (j # js) =
     orE (unlessE (eqE X j (j - 1)) (gtE (gap_left X R c j p) payoff))
         (left_gaps X R c payoff p js)"

text \<open>
  The loop over the interior players that share their position with no neighbour
  (lines 253--284 of the n-player module, lines 233--262 of the 4-player module).
\<close>

definition interior_player :: "real list \<Rightarrow> real list \<Rightarrow> real \<Rightarrow> int \<Rightarrow> int \<Rightarrow> py_error + bool" where
  "interior_player X R c n p =
     unlessE (orE (eqE X (p - 1) p) (eqE X p (p + 1)))
       (bindE (pay_interior X p) (\<lambda>payoff.
          orE (gtE (dev_left X R c p) payoff)
         (orE (gtE (dev_right X R c n p) payoff)
         (orE (left_gaps X R c payoff p [1..p - 1])
              (right_gaps X R c payoff p [p + 1..n - 2])))))"

fun interior_players :: "real list \<Rightarrow> real list \<Rightarrow> real \<Rightarrow> int \<Rightarrow> int list \<Rightarrow> py_error + bool" where
  "interior_players X R c n [] = Inr False"
| "interior_players X R c n (p # ps) =
     orE (interior_player X R c n p) (interior_players X R c n ps)"

subsection \<open>Five players and more\<close>

text \<open>
  \<^verbatim>\<open>Eq_candidate_n_players\<close>, lines 84--110 of the n-player module.  The candidate starts as
  \<^verbatim>\<open>[0 for i in range(nb_players)]\<close>; \<open>left_end\<close> is the \<^verbatim>\<open>if\<close>/\<^verbatim>\<open>elif\<close> on
  \<^verbatim>\<open>R[0] + delta < R[1]\<close>, \<open>right_end\<close> the one on \<^verbatim>\<open>R[nb_players - 1] - delta > R[nb_players - 2]\<close>,
  and \<open>fill_interior\<close> the final loop, which overwrites a slot only when it still holds 0.
\<close>

definition left_end :: "real list \<Rightarrow> real list \<Rightarrow> real \<Rightarrow> py_error + real list" where
  "left_end R X delta =
     bindE (getE R 0) (\<lambda>r0. bindE (getE R 1) (\<lambda>r1.
       if r0 + delta < r1 then setE X 0 (r0 + delta)
       else if r0 + delta \<ge> r1 then
         bindE (getE R 2) (\<lambda>r2. bindE (setE X 0 (r2 / 3)) (\<lambda>X'. setE X' 1 (r2 / 3)))
       else Inr X))"

definition right_end :: "real list \<Rightarrow> real list \<Rightarrow> real \<Rightarrow> int \<Rightarrow> py_error + real list" where
  "right_end R X delta nb_players =
     bindE (getE R (nb_players - 1)) (\<lambda>rl. bindE (getE R (nb_players - 2)) (\<lambda>rs.
       if rl - delta > rs then setE X (nb_players - 1) (rl - delta)
       else if rl - delta \<le> rs then
         bindE (getE R (nb_players - 3)) (\<lambda>rt.
         bindE (setE X (nb_players - 1) ((2 + rt) / 3)) (\<lambda>X'.
         setE X' (nb_players - 2) ((2 + rt) / 3)))
       else Inr X))"

fun fill_interior :: "real list \<Rightarrow> real list \<Rightarrow> int list \<Rightarrow> py_error + real list" where
  "fill_interior X R [] = Inr X"
| "fill_interior X R (i # is) =
     bindE (getE X i) (\<lambda>xi.
       if xi = 0 then bindE (getE R i) (\<lambda>ri. bindE (setE X i ri) (\<lambda>X'. fill_interior X' R is))
       else fill_interior X R is)"

definition Eq_candidate_n_players :: "real list \<Rightarrow> real \<Rightarrow> py_error + real list" where
  "Eq_candidate_n_players R c =
     (let nb_players = int (length R); X = replicate (length R) 0 in
      bindE (delta_distance c) (\<lambda>delta.
      bindE (left_end R X delta) (\<lambda>X1.
      bindE (right_end R X1 delta nb_players) (\<lambda>X2.
      fill_interior X2 R [1..nb_players - 2]))))"

text \<open>
  \<^verbatim>\<open>equilibrium_n_players\<close>: the deviations of Player 1 (lines 152--199), of Player n
  (lines 201--250), and the verifier itself.
\<close>

definition player_1_n :: "real list \<Rightarrow> real list \<Rightarrow> real \<Rightarrow> int \<Rightarrow> py_error + bool" where
  "player_1_n X R c n =
     bindE (neqE X 0 1) (\<lambda>alone.
     if alone then
       bindE (pay_single_left X R c) (\<lambda>payoff.
         orE (gtE (dev_right X R c n 0) payoff) (right_gaps X R c payoff 0 [1..n - 2]))
     else bindE (eqE X 0 1) (\<lambda>paired.
     if paired then
       orE (bindE (pay_paired_left X R c 0) (\<lambda>payoff.
              orE (gtE (dev_right X R c n 0) payoff) (right_gaps X R c payoff 0 [2..n - 2])))
           (bindE (pay_paired_left X R c 1) (\<lambda>payoff.
              orE (gtE (dev_right X R c n 1) payoff) (right_gaps X R c payoff 1 [2..n - 2])))
     else Inr False))"

definition player_n_n :: "real list \<Rightarrow> real list \<Rightarrow> real \<Rightarrow> int \<Rightarrow> py_error + bool" where
  "player_n_n X R c n =
     bindE (neqE X (n - 1) (n - 2)) (\<lambda>alone.
     if alone then
       bindE (pay_single_right X R c n) (\<lambda>payoff.
         orE (gtE (dev_left X R c (n - 1)) payoff) (left_gaps X R c payoff (n - 1) [1..n - 2]))
     else bindE (eqE X (n - 1) (n - 2)) (\<lambda>paired.
     if paired then
       orE (bindE (pay_paired_right X R c n (n - 1)) (\<lambda>payoff.
              orE (gtE (dev_left X R c (n - 1)) payoff)
                  (left_gaps X R c payoff (n - 1) [1..n - 3])))
           (bindE (pay_paired_right X R c n (n - 2)) (\<lambda>payoff.
              orE (gtE (dev_left X R c (n - 2)) payoff)
                  (left_gaps X R c payoff (n - 2) [1..n - 3])))
     else Inr False))"

definition equilibrium_n_players :: "real list \<Rightarrow> real \<Rightarrow> py_error + string" where
  "equilibrium_n_players R_in c =
     (let R = sort R_in in
      bindE (Eq_candidate_n_players R c) (\<lambda>X.
      let nb_players = int (length X) in
      bindE (delta_distance c) (\<lambda>delta.
      thenE (consistency_left X R delta)
     (thenE (consistency_right X R delta nb_players)
     (thenE (player_1_n X R c nb_players)
     (thenE (player_n_n X R c nb_players)
     (thenE (interior_players X R c nb_players [1..nb_players - 2])
            (Inr ''Eq''))))))))"

subsection \<open>Three players\<close>

text \<open>
  \<^verbatim>\<open>Eq_candidate_3_players\<close> returns either the candidate or the string \<^verbatim>\<open>"No Eq"\<close>;
  \<open>py_value\<close> is the type of what it returns.  The candidate starts as \<^verbatim>\<open>[0,0,0]\<close> and
  its three slots are assigned in the branch taken.
\<close>

datatype py_value = PyList "real list" | PyStr string

definition Eq_candidate_3_players :: "real list \<Rightarrow> real \<Rightarrow> py_error + py_value" where
  "Eq_candidate_3_players R c =
     (let X = [0, 0, 0] in
      bindE (delta_distance c) (\<lambda>delta.
      bindE (getE R 0) (\<lambda>r0. bindE (getE R 1) (\<lambda>r1.
      bindE (andE (Inr (r0 + delta < r1))
                  (bindE (getE R 2) (\<lambda>r2. Inr (r2 - delta > r1)))) (\<lambda>both_free.
      if both_free then
        bindE (getE R 2) (\<lambda>r2. Inr (PyList (X[0 := r0 + delta, 1 := r1, 2 := r2 - delta])))
      else
      bindE (andE (Inr (r0 + delta \<ge> r1))
                  (bindE (getE R 2) (\<lambda>r2. Inr (r2 - delta > r1)))) (\<lambda>left_paired.
      if left_paired then
        bindE (getE R 2) (\<lambda>r2.
          Inr (PyList (X[0 := (r2 - delta) / 3, 1 := (r2 - delta) / 3, 2 := r2 - delta])))
      else
      bindE (andE (bindE (getE R 2) (\<lambda>r2. Inr (r2 - delta \<le> r1)))
                  (Inr (r0 + delta < r1))) (\<lambda>right_paired.
      if right_paired then
        Inr (PyList (X[0 := r0 + delta, 1 := (r0 + delta + 2) / 3, 2 := (r0 + delta + 2) / 3]))
      else Inr (PyStr ''No Eq''))))))))"

definition player_1_3 :: "real list \<Rightarrow> real list \<Rightarrow> real \<Rightarrow> py_error + bool" where
  "player_1_3 X R c =
     bindE (neqE X 0 1) (\<lambda>alone.
     if alone then
       bindE (pay_single_left X R c) (\<lambda>payoff.
         orE (gtE (dev_right X R c 3 0) payoff)
             (andE (neqE X 1 2) (gtE (gap_right X R c 1 0) payoff)))
     else bindE (eqE X 0 1) (\<lambda>paired.
     if paired then
       orE (bindE (pay_paired_left X R c 0) (\<lambda>payoff. gtE (dev_right X R c 3 0) payoff))
           (bindE (pay_paired_left X R c 1) (\<lambda>payoff. gtE (dev_right X R c 3 1) payoff))
     else Inr False))"

definition player_3_3 :: "real list \<Rightarrow> real list \<Rightarrow> real \<Rightarrow> py_error + bool" where
  "player_3_3 X R c =
     bindE (neqE X 2 1) (\<lambda>alone.
     if alone then
       bindE (pay_single_right X R c 3) (\<lambda>payoff.
         orE (gtE (dev_left X R c 2) payoff)
             (andE (neqE X 1 0) (gtE (gap_left X R c 1 2) payoff)))
     else bindE (eqE X 2 1) (\<lambda>paired.
     if paired then
       orE (bindE (pay_paired_right X R c 3 2) (\<lambda>payoff. gtE (dev_left X R c 2) payoff))
           (bindE (pay_paired_right X R c 3 1) (\<lambda>payoff. gtE (dev_left X R c 1) payoff))
     else Inr False))"

definition player_2_3 :: "real list \<Rightarrow> real list \<Rightarrow> real \<Rightarrow> py_error + bool" where
  "player_2_3 X R c =
     andE (andE (neqE X 0 1) (neqE X 1 2))
       (bindE (pay_interior X 1) (\<lambda>payoff.
          orE (gtE (dev_left X R c 1) payoff) (gtE (dev_right X R c 3 1) payoff)))"

definition equilibrium_3_players :: "real list \<Rightarrow> real \<Rightarrow> py_error + string" where
  "equilibrium_3_players R_in c =
     (let R = sort R_in in
      bindE (Eq_candidate_3_players R c) (\<lambda>cand.
      if cand = PyStr ''No Eq'' then Inr ''No Eq''
      else (case cand of
        PyStr s \<Rightarrow> Inl TypeError
      | PyList X \<Rightarrow>
          bindE (delta_distance c) (\<lambda>delta.
          thenE (consistency_left X R delta)
         (thenE (consistency_right X R delta 3)
         (thenE (player_1_3 X R c)
         (thenE (player_3_3 X R c)
         (thenE (player_2_3 X R c)
                (Inr ''Eq'')))))))))"

subsection \<open>Four players\<close>

definition Eq_candidate_4_players :: "real list \<Rightarrow> real \<Rightarrow> py_error + real list" where
  "Eq_candidate_4_players R c =
     (let X = [0, 0, 0, 0] in
      bindE (delta_distance c) (\<lambda>delta.
      bindE (getE R 0) (\<lambda>r0. bindE (getE R 1) (\<lambda>r1.
      bindE (andE (Inr (r0 + delta < r1))
                  (bindE (getE R 3) (\<lambda>r3. bindE (getE R 2) (\<lambda>r2. Inr (r3 - delta > r2))))) (\<lambda>both_free.
      if both_free then
        bindE (getE R 2) (\<lambda>r2. bindE (getE R 3) (\<lambda>r3.
          Inr (X[0 := r0 + delta, 1 := r1, 2 := r2, 3 := r3 - delta])))
      else
      bindE (andE (Inr (r0 + delta \<ge> r1))
                  (bindE (getE R 3) (\<lambda>r3. bindE (getE R 2) (\<lambda>r2. Inr (r3 - delta > r2))))) (\<lambda>left_paired.
      if left_paired then
        bindE (getE R 2) (\<lambda>r2. bindE (getE R 3) (\<lambda>r3.
          Inr (X[0 := r2 / 3, 1 := r2 / 3, 2 := r2, 3 := r3 - delta])))
      else
      bindE (andE (Inr (r0 + delta < r1))
                  (bindE (getE R 3) (\<lambda>r3. bindE (getE R 2) (\<lambda>r2. Inr (r3 - delta \<le> r2))))) (\<lambda>right_paired.
      if right_paired then
        Inr (X[0 := r0 + delta, 1 := r1, 2 := (r1 + 2) / 3, 3 := (r1 + 2) / 3])
      else
      bindE (andE (Inr (r0 + delta \<ge> r1))
                  (bindE (getE R 3) (\<lambda>r3. bindE (getE R 2) (\<lambda>r2. Inr (r3 - delta \<le> r2))))) (\<lambda>both_paired.
      if both_paired then
        Inr (X[0 := 1 / 4, 1 := 1 / 4, 2 := 3 / 4, 3 := 3 / 4])
      else Inr X))))))))"

definition player_1_4 :: "real list \<Rightarrow> real list \<Rightarrow> real \<Rightarrow> py_error + bool" where
  "player_1_4 X R c =
     bindE (neqE X 0 1) (\<lambda>alone.
     if alone then
       bindE (pay_single_left X R c) (\<lambda>payoff.
         orE (gtE (dev_right X R c 4 0) payoff) (right_gaps X R c payoff 0 [1..2]))
     else bindE (eqE X 0 1) (\<lambda>paired.
     if paired then
       orE (bindE (pay_paired_left X R c 0) (\<lambda>payoff.
              orE (gtE (dev_right X R c 4 0) payoff)
                  (andE (neqE X 2 3) (gtE (gap_right X R c 2 0) payoff))))
           (bindE (pay_paired_left X R c 1) (\<lambda>payoff.
              orE (gtE (dev_right X R c 4 1) payoff)
                  (andE (neqE X 2 3) (gtE (gap_right X R c 2 1) payoff))))
     else Inr False))"

definition player_4_4 :: "real list \<Rightarrow> real list \<Rightarrow> real \<Rightarrow> py_error + bool" where
  "player_4_4 X R c =
     bindE (neqE X 3 2) (\<lambda>alone.
     if alone then
       bindE (pay_single_right X R c 4) (\<lambda>payoff.
         orE (gtE (dev_left X R c 3) payoff) (left_gaps X R c payoff 3 [1..2]))
     else bindE (eqE X 3 2) (\<lambda>paired.
     if paired then
       orE (bindE (pay_paired_right X R c 4 3) (\<lambda>payoff.
              orE (gtE (dev_left X R c 3) payoff)
                  (andE (neqE X 1 0) (gtE (gap_left X R c 1 3) payoff))))
           (bindE (pay_paired_right X R c 4 2) (\<lambda>payoff.
              orE (gtE (dev_left X R c 2) payoff)
                  (andE (neqE X 1 0) (gtE (gap_left X R c 1 2) payoff))))
     else Inr False))"

definition equilibrium_4_players :: "real list \<Rightarrow> real \<Rightarrow> py_error + string" where
  "equilibrium_4_players R_in c =
     (let R = sort R_in in
      bindE (Eq_candidate_4_players R c) (\<lambda>X.
      bindE (delta_distance c) (\<lambda>delta.
      thenE (consistency_left X R delta)
     (thenE (consistency_right X R delta 4)
     (if X = [1 / 4, 1 / 4, 3 / 4, 3 / 4] then Inr ''Eq''
      else
      thenE (player_1_4 X R c)
     (thenE (player_4_4 X R c)
     (thenE (interior_players X R c 4 [1..2])
            (Inr ''Eq''))))))))"

section \<open>The verifier's checks, stated without the control flow\<close>















section \<open>Properties\<close>

subsection \<open>The run-time combinators\<close>

lemma bindE_Inl [simp]: "bindE (Inl e) f = Inl e"
  by (simp add: bindE_def)

lemma bindE_Inr [simp]: "bindE (Inr v) f = f v"
  by (simp add: bindE_def)

lemma getE_in_range: "0 \<le> i \<Longrightarrow> i < int (length xs) \<Longrightarrow> getE xs i = Inr (xs ! nat i)"
  by (simp add: getE_def py_index_def)

lemma setE_in_range:
  "0 \<le> i \<Longrightarrow> i < int (length xs) \<Longrightarrow> setE xs i v = Inr (xs[nat i := v])"
  by (simp add: setE_def py_index_def)

lemma orE_simps [simp]:
  "orE (Inl e) b = Inl e" "orE (Inr True) b = Inr True" "orE (Inr False) b = b"
  by (simp_all add: orE_def)

lemma andE_simps [simp]:
  "andE (Inl e) b = Inl e" "andE (Inr True) b = b" "andE (Inr False) b = Inr False"
  by (simp_all add: andE_def)

lemma unlessE_simps [simp]:
  "unlessE (Inl e) b = Inl e" "unlessE (Inr True) b = Inr False" "unlessE (Inr False) b = b"
  by (simp_all add: unlessE_def)

lemma thenE_simps [simp]:
  "thenE (Inl e) r = Inl e" "thenE (Inr True) r = Inr ''No Eq''" "thenE (Inr False) r = r"
  by (simp_all add: thenE_def)

lemma float_overflow_bound_gt_one: "1 < float_overflow_bound"
  by (simp add: float_overflow_bound_def)

lemma squareE_in_range: "x\<^sup>2 < float_overflow_bound \<Longrightarrow> squareE x = Inr (x\<^sup>2)"
  by (simp add: squareE_def)

lemma squareE_small: "\<bar>x\<bar> \<le> 1 \<Longrightarrow> squareE x = Inr (x\<^sup>2)"
proof -
  assume "\<bar>x\<bar> \<le> 1"
  then have "x\<^sup>2 \<le> 1" by (simp add: abs_square_le_1)
  with float_overflow_bound_gt_one have "x\<^sup>2 < float_overflow_bound" by linarith
  then show ?thesis by (rule squareE_in_range)
qed

subsection \<open>Two players\<close>

text \<open>
  Claim C8.  On \<^verbatim>\<open>R = [0.0, 1.0]\<close> and \<^verbatim>\<open>c = 1\<close> the half-width is 0.25, the test
  \<^verbatim>\<open>R[1] - R[0] < 2 * delta\<close> fails, so the separated branch is taken, the candidate built
  there is \<^verbatim>\<open>[0.25, 0.75]\<close>, and the verifier returns \<^verbatim>\<open>"Eq"\<close>.
\<close>

theorem equilibrium_2_players_unit_interval:
  "delta_distance 1 = Inr (1 / 4)
   \<and> \<not> ((1::real) - 0 < 2 * (1 / 4))
   \<and> separated_candidate_2 (sort [0, 1]) (1 / 4) = Inr [1 / 4, 3 / 4]
   \<and> equilibrium_2_players [0, 1] 1 = Inr ''Eq''"
  by (simp add: delta_distance_def separated_candidate_2_def equilibrium_2_players_def
      getE_def setE_def py_index_def jump_payoff_left_2_def stay_payoff_left_2_def
      jump_payoff_right_2_def stay_payoff_right_2_def squareE_small power2_eq_square)

subsection \<open>Helper facts about the candidate builder for five players and more\<close>

lemma sort_perm_eq: "mset R' = mset R \<Longrightarrow> sort R' = sort (R::real list)"
  by (rule properties_for_sort) simp_all

lemma fill_interior_char:
  assumes "\<forall>i\<in>set is. 0 \<le> i \<and> i < int (length X)" and "length X \<le> length R"
  shows "\<exists>X'. fill_interior X R is = Inr X' \<and> length X' = length X
           \<and> (\<forall>k<length X. X' ! k = (if int k \<in> set is \<and> X ! k = 0 then R ! k else X ! k))"
  using assms
proof (induction "is" arbitrary: X)
  case Nil
  then show ?case by simp
next
  case (Cons i "is")
  from Cons.prems have i: "0 \<le> i" "i < int (length X)" "i < int (length R)" by auto
  show ?case
  proof (cases "X ! nat i = 0")
    case True
    let ?X1 = "X[nat i := R ! nat i]"
    from Cons.prems have "\<forall>i\<in>set is. 0 \<le> i \<and> i < int (length ?X1)" "length ?X1 \<le> length R"
      by auto
    from Cons.IH [OF this] obtain X' where X': "fill_interior ?X1 R is = Inr X'"
      "length X' = length X"
      "\<forall>k<length X. X' ! k = (if int k \<in> set is \<and> ?X1 ! k = 0 then R ! k else ?X1 ! k)"
      by auto
    have "fill_interior X R (i # is) = Inr X'"
      using i True X'(1) by (simp add: getE_in_range setE_in_range)
    moreover have "\<forall>k<length X. X' ! k = (if int k \<in> set (i # is) \<and> X ! k = 0 then R ! k else X ! k)"
    proof (intro allI impI)
      fix k assume k: "k < length X"
      show "X' ! k = (if int k \<in> set (i # is) \<and> X ! k = 0 then R ! k else X ! k)"
      proof (cases "k = nat i")
        case True
        with X'(3) k i \<open>X ! nat i = 0\<close> show ?thesis by simp
      next
        case False
        with i have "int k \<noteq> i" by auto
        with X'(3) k False show ?thesis by simp
      qed
    qed
    ultimately show ?thesis using X'(2) by blast
  next
    case False
    from Cons.prems have "\<forall>i\<in>set is. 0 \<le> i \<and> i < int (length X)" "length X \<le> length R"
      by auto
    from Cons.IH [OF this] obtain X' where X': "fill_interior X R is = Inr X'"
      "length X' = length X"
      "\<forall>k<length X. X' ! k = (if int k \<in> set is \<and> X ! k = 0 then R ! k else X ! k)"
      by auto
    have "fill_interior X R (i # is) = Inr X'"
      using i False X'(1) by (simp add: getE_in_range)
    moreover have "\<forall>k<length X. X' ! k = (if int k \<in> set (i # is) \<and> X ! k = 0 then R ! k else X ! k)"
    proof (intro allI impI)
      fix k assume k: "k < length X"
      show "X' ! k = (if int k \<in> set (i # is) \<and> X ! k = 0 then R ! k else X ! k)"
      proof (cases "k = nat i")
        case True
        with X'(3) k i False show ?thesis by simp
      next
        case False
        with i have "int k \<noteq> i" by auto
        with X'(3) k False show ?thesis by simp
      qed
    qed
    ultimately show ?thesis using X'(2) by blast
  qed
qed



lemma left_end_nth:
  assumes "2 \<le> length X" and "3 \<le> length R"
  shows "\<exists>X1. left_end R X d = Inr X1 \<and> length X1 = length X
     \<and> X1 ! 0 = (if R ! 0 + d < R ! 1 then R ! 0 + d else R ! 2 / 3)
     \<and> X1 ! 1 = (if R ! 0 + d < R ! 1 then X ! 1 else R ! 2 / 3)
     \<and> (\<forall>k. 2 \<le> k \<longrightarrow> X1 ! k = X ! k)"
proof (cases "R ! 0 + d < R ! 1")
  from assms have ne: "R \<noteq> []" "X \<noteq> []" by auto
  case True
  with assms ne have "left_end R X d = Inr (X[0 := R ! 0 + d])"
    by (simp add: left_end_def getE_in_range setE_in_range)
  with True assms ne show ?thesis by simp
next
  from assms have ne: "R \<noteq> []" "X \<noteq> []" by auto
  case False
  with assms ne have "left_end R X d = Inr (X[0 := R ! 2 / 3, 1 := R ! 2 / 3])"
    by (simp add: left_end_def getE_in_range setE_in_range)
  with False assms ne show ?thesis by simp
qed

lemma right_end_nth:
  assumes "length X = length R" and "3 \<le> length R"
  shows "\<exists>X2. right_end R X d (int (length R)) = Inr X2 \<and> length X2 = length X
     \<and> X2 ! (length R - 1) =
          (if R ! (length R - 1) - d > R ! (length R - 2)
           then R ! (length R - 1) - d else (2 + R ! (length R - 3)) / 3)
     \<and> X2 ! (length R - 2) =
          (if R ! (length R - 1) - d > R ! (length R - 2)
           then X ! (length R - 2) else (2 + R ! (length R - 3)) / 3)
     \<and> (\<forall>k. k + 3 \<le> length R \<longrightarrow> X2 ! k = X ! k)"
proof -
  have idx: "nat (int (length R) - 1) = length R - 1" "nat (int (length R) - 2) = length R - 2"
    "nat (int (length R) - 3) = length R - 3"
    by simp_all
  from assms have ne: "R \<noteq> []" "X \<noteq> []" by auto
  show ?thesis
  proof (cases "R ! (length R - 1) - d > R ! (length R - 2)")
    case True
    with assms ne have "right_end R X d (int (length R)) = Inr (X[length R - 1 := R ! (length R - 1) - d])"
      by (simp add: right_end_def getE_in_range setE_in_range idx)
    with True assms ne show ?thesis by simp
  next
    case False
    with assms ne have "right_end R X d (int (length R)) =
        Inr (X[length R - 1 := (2 + R ! (length R - 3)) / 3, length R - 2 := (2 + R ! (length R - 3)) / 3])"
      by (simp add: right_end_def getE_in_range setE_in_range idx)
    with False assms ne show ?thesis by simp
  qed
qed


lemma Eq_candidate_n_players_char:
  assumes c: "0 < c" and n: "5 \<le> length R"
  shows "\<exists>X. Eq_candidate_n_players R c = Inr X \<and> length X = length R
     \<and> X ! 0 = (if R ! 0 + 1 / (4 * c) < R ! 1 then R ! 0 + 1 / (4 * c) else R ! 2 / 3)
     \<and> X ! 1 = (if R ! 0 + 1 / (4 * c) < R ! 1 \<or> R ! 2 / 3 = 0 then R ! 1 else R ! 2 / 3)
     \<and> X ! (length R - 2) =
          (if R ! (length R - 1) - 1 / (4 * c) > R ! (length R - 2) \<or> (2 + R ! (length R - 3)) / 3 = 0
           then R ! (length R - 2) else (2 + R ! (length R - 3)) / 3)
     \<and> X ! (length R - 1) =
          (if R ! (length R - 1) - 1 / (4 * c) > R ! (length R - 2)
           then R ! (length R - 1) - 1 / (4 * c) else (2 + R ! (length R - 3)) / 3)
     \<and> (\<forall>k. 2 \<le> k \<and> k + 3 \<le> length R \<longrightarrow> X ! k = R ! k)"
proof -
  define m where "m = length R"
  define d where "d = 1 / (4 * c)"
  define X0 where "X0 = replicate m (0::real)"
  define b where "b = (2 + R ! (m - 3)) / 3"
  have m: "5 \<le> m" using n by (simp add: m_def)
  have dd: "delta_distance c = Inr d" using c by (simp add: delta_distance_def d_def)
  have X0: "length X0 = m" "\<forall>k<m. X0 ! k = 0" by (simp_all add: X0_def)
  from left_end_nth [of X0 R d] X0(1) m obtain X1 where X1: "left_end R X0 d = Inr X1"
    "length X1 = m"
    "X1 ! 0 = (if R ! 0 + d < R ! 1 then R ! 0 + d else R ! 2 / 3)"
    "X1 ! 1 = (if R ! 0 + d < R ! 1 then X0 ! 1 else R ! 2 / 3)"
    "\<forall>k. 2 \<le> k \<longrightarrow> X1 ! k = X0 ! k"
    unfolding m_def by auto
  from right_end_nth [of X1 R d] X1(2) m obtain X2 where X2: "right_end R X1 d (int m) = Inr X2"
    "length X2 = m"
    "X2 ! (m - 1) = (if R ! (m - 1) - d > R ! (m - 2) then R ! (m - 1) - d else b)"
    "X2 ! (m - 2) = (if R ! (m - 1) - d > R ! (m - 2) then X1 ! (m - 2) else b)"
    "\<forall>k. k + 3 \<le> m \<longrightarrow> X2 ! k = X1 ! k"
    unfolding m_def b_def by auto
  have rng: "\<forall>i\<in>set [1..int m - 2]. 0 \<le> i \<and> i < int (length X2)"
    unfolding X2(2) by auto
  have "length X2 \<le> length R" using X2(2) by (simp add: m_def)
  from fill_interior_char [OF rng this] obtain X where X: "fill_interior X2 R [1..int m - 2] = Inr X"
    "length X = m"
    "\<forall>k<m. X ! k = (if int k \<in> set [1..int m - 2] \<and> X2 ! k = 0 then R ! k else X2 ! k)"
    unfolding X2(2) by auto
  have cand: "Eq_candidate_n_players R c = Inr X"
    using dd X1(1) X2(1) X(1) by (simp add: Eq_candidate_n_players_def Let_def m_def X0_def)
  have x20: "X2 ! 0 = X1 ! 0" using X2(5) m by simp
  have x21: "X2 ! 1 = X1 ! 1" using X2(5) m by simp
  have x01: "X0 ! 1 = 0" using X0(2) m by simp
  have x1m: "X1 ! (m - 2) = 0" using X1(5) X0(2) m by simp
  have in0: "int 0 \<notin> set [1..int m - 2]" by simp
  have in1: "int 1 \<in> set [1..int m - 2]" using m by simp
  have inl: "int (m - 1) \<notin> set [1..int m - 2]" using m by auto
  have ins: "int (m - 2) \<in> set [1..int m - 2]" using m by auto
  have v0: "X ! 0 = (if R ! 0 + d < R ! 1 then R ! 0 + d else R ! 2 / 3)"
  proof -
    have "X ! 0 = X2 ! 0" using X(3) in0 m by auto
    then show ?thesis using x20 X1(3) by simp
  qed
  have v1: "X ! 1 = (if R ! 0 + d < R ! 1 \<or> R ! 2 / 3 = 0 then R ! 1 else R ! 2 / 3)"
  proof -
    have "X ! 1 = (if X2 ! 1 = 0 then R ! 1 else X2 ! 1)" using X(3) in1 m by auto
    then show ?thesis using x21 X1(4) x01 by simp
  qed
  have v2: "X ! (m - 2) = (if R ! (m - 1) - d > R ! (m - 2) \<or> b = 0 then R ! (m - 2) else b)"
  proof -
    have "X ! (m - 2) = (if X2 ! (m - 2) = 0 then R ! (m - 2) else X2 ! (m - 2))"
      using X(3) ins m by auto
    then show ?thesis using X2(4) x1m by simp
  qed
  have v3: "X ! (m - 1) = (if R ! (m - 1) - d > R ! (m - 2) then R ! (m - 1) - d else b)"
  proof -
    have "X ! (m - 1) = X2 ! (m - 1)" using X(3) inl m by auto
    then show ?thesis using X2(3) by simp
  qed
  have vk: "\<forall>k. 2 \<le> k \<and> k + 3 \<le> m \<longrightarrow> X ! k = R ! k"
  proof (intro allI impI)
    fix k assume k: "2 \<le> k \<and> k + 3 \<le> m"
    then have "X2 ! k = 0" using X2(5) X1(5) X0(2) by simp
    moreover from k have "int k \<in> set [1..int m - 2]" "k < m" by auto
    ultimately show "X ! k = R ! k" using X(3) by simp
  qed
  from cand X(2) v0 v1 v2 v3 vk show ?thesis
    unfolding m_def d_def b_def by blast
qed

subsection \<open>The candidate builders for three and four players in closed form\<close>

lemma Eq_candidate_3_players_char:
  assumes "0 < c" and "3 \<le> length R"
  shows "Eq_candidate_3_players R c =
    (if R ! 0 + 1 / (4 * c) < R ! 1 \<and> R ! 2 - 1 / (4 * c) > R ! 1
       then Inr (PyList [R ! 0 + 1 / (4 * c), R ! 1, R ! 2 - 1 / (4 * c)])
     else if R ! 2 - 1 / (4 * c) > R ! 1
       then Inr (PyList [(R ! 2 - 1 / (4 * c)) / 3, (R ! 2 - 1 / (4 * c)) / 3, R ! 2 - 1 / (4 * c)])
     else if R ! 0 + 1 / (4 * c) < R ! 1
       then Inr (PyList [R ! 0 + 1 / (4 * c), (R ! 0 + 1 / (4 * c) + 2) / 3, (R ! 0 + 1 / (4 * c) + 2) / 3])
     else Inr (PyStr ''No Eq''))"
proof -
  from assms have ne: "R \<noteq> []" by auto
  from assms ne have g: "getE R 0 = Inr (R ! 0)" "getE R 1 = Inr (R ! 1)" "getE R 2 = Inr (R ! 2)"
    by (simp_all add: getE_in_range)
  from assms have d: "delta_distance c = Inr (1 / (4 * c))" by (simp add: delta_distance_def)
  show ?thesis
    unfolding Eq_candidate_3_players_def Let_def d g by auto
qed

lemma Eq_candidate_4_players_char:
  assumes "0 < c" and "4 \<le> length R"
  shows "Eq_candidate_4_players R c =
    Inr (if R ! 0 + 1 / (4 * c) < R ! 1 \<and> R ! 3 - 1 / (4 * c) > R ! 2
           then [R ! 0 + 1 / (4 * c), R ! 1, R ! 2, R ! 3 - 1 / (4 * c)]
         else if R ! 3 - 1 / (4 * c) > R ! 2
           then [R ! 2 / 3, R ! 2 / 3, R ! 2, R ! 3 - 1 / (4 * c)]
         else if R ! 0 + 1 / (4 * c) < R ! 1
           then [R ! 0 + 1 / (4 * c), R ! 1, (R ! 1 + 2) / 3, (R ! 1 + 2) / 3]
         else [1 / 4, 1 / 4, 3 / 4, 3 / 4])"
proof -
  from assms have ne: "R \<noteq> []" by auto
  from assms ne have g: "getE R 0 = Inr (R ! 0)" "getE R 1 = Inr (R ! 1)" "getE R 2 = Inr (R ! 2)"
      "getE R 3 = Inr (R ! 3)"
    by (simp_all add: getE_in_range)
  from assms have d: "delta_distance c = Inr (1 / (4 * c))" by (simp add: delta_distance_def)
  show ?thesis
    unfolding Eq_candidate_4_players_def Let_def d g by auto
qed

subsection \<open>Invariance under permutation of the reputations\<close>

text \<open>
  Claim C6.  The verdict does not depend on the order of the reputations: if \<open>R'\<close> is a
  permutation of \<open>R\<close> (the two lists have the same multiset of elements), each of the four
  verifiers returns on \<open>R'\<close> what it returns on \<open>R\<close>, for every cost coefficient, because
  each starts with \<^verbatim>\<open>R = sorted(R)\<close>.  The equality covers raised exceptions too.
\<close>

theorem verdict_permutation_invariant:
  assumes "mset R' = mset R"
  shows "equilibrium_2_players R' c = equilibrium_2_players R c
       \<and> equilibrium_3_players R' c = equilibrium_3_players R c
       \<and> equilibrium_4_players R' c = equilibrium_4_players R c
       \<and> equilibrium_n_players R' c = equilibrium_n_players R c"
  using sort_perm_eq [OF assms]
  by (simp add: equilibrium_2_players_def equilibrium_3_players_def
      equilibrium_4_players_def equilibrium_n_players_def)

theorem verdict_permutation_invariant_witness:
  "mset [5/6, 1/6, 1/2, 5/6, 1/6 :: real] = mset [1/6, 1/6, 1/2, 5/6, 5/6]
   \<and> equilibrium_2_players [5/6, 1/6, 1/2, 5/6, 1/6] 1 = equilibrium_2_players [1/6, 1/6, 1/2, 5/6, 5/6] 1
   \<and> equilibrium_3_players [5/6, 1/6, 1/2, 5/6, 1/6] 1 = equilibrium_3_players [1/6, 1/6, 1/2, 5/6, 5/6] 1
   \<and> equilibrium_4_players [5/6, 1/6, 1/2, 5/6, 1/6] 1 = equilibrium_4_players [1/6, 1/6, 1/2, 5/6, 5/6] 1
   \<and> equilibrium_n_players [5/6, 1/6, 1/2, 5/6, 1/6] 1 = equilibrium_n_players [1/6, 1/6, 1/2, 5/6, 5/6] 1"
proof -
  have h: "mset [5/6, 1/6, 1/2, 5/6, 1/6 :: real] = mset [1/6, 1/6, 1/2, 5/6, 5/6]" by simp
  from h verdict_permutation_invariant [OF h, of 1] show ?thesis by blast
qed

subsection \<open>What the candidate builders return\<close>

text \<open>
  Claim C2, as amended.  For \<open>c > 0\<close>: on four reputations \<^verbatim>\<open>Eq_candidate_4_players\<close>
  returns a list of length 4, and on \<open>n \<ge> 5\<close> reputations \<^verbatim>\<open>Eq_candidate_n_players\<close>
  returns a list of length \<open>n\<close>; neither raises.  On three reputations
  \<^verbatim>\<open>Eq_candidate_3_players\<close> returns a list of length 3 unless both boundary players are
  too close to the middle one (\<open>R[1] \<le> R[0] + \<delta>\<close> and \<open>R[2] - \<delta> \<le> R[1]\<close>), and in that
  case it returns the string \<^verbatim>\<open>"No Eq"\<close> instead of a list, as its docstring announces.
\<close>

theorem candidate_builders_result:
  assumes "0 < c" and "length R3 = 3" and "length R4 = 4" and "5 \<le> length Rn"
  shows "(if R3 ! 1 \<le> R3 ! 0 + 1 / (4 * c) \<and> R3 ! 2 - 1 / (4 * c) \<le> R3 ! 1
          then Eq_candidate_3_players R3 c = Inr (PyStr ''No Eq'')
          else (\<exists>X. Eq_candidate_3_players R3 c = Inr (PyList X) \<and> length X = 3))
       \<and> (\<exists>X. Eq_candidate_4_players R4 c = Inr X \<and> length X = 4)
       \<and> (\<exists>X. Eq_candidate_n_players Rn c = Inr X \<and> length X = length Rn)"
proof -
  have three: "if R3 ! 1 \<le> R3 ! 0 + 1 / (4 * c) \<and> R3 ! 2 - 1 / (4 * c) \<le> R3 ! 1
          then Eq_candidate_3_players R3 c = Inr (PyStr ''No Eq'')
          else (\<exists>X. Eq_candidate_3_players R3 c = Inr (PyList X) \<and> length X = 3)"
    using assms(1,2) by (simp add: Eq_candidate_3_players_char)
  have four: "\<exists>X. Eq_candidate_4_players R4 c = Inr X \<and> length X = 4"
    using assms(1,3) by (simp add: Eq_candidate_4_players_char)
  have many: "\<exists>X. Eq_candidate_n_players Rn c = Inr X \<and> length X = length Rn"
    using Eq_candidate_n_players_char [OF assms(1,4)] by blast
  from three four many show ?thesis by blast
qed

theorem candidate_builders_result_witness:
  "(0::real) < 1 \<and> length [0, 1/2, 1 :: real] = 3 \<and> length [0, 1/3, 2/3, 1 :: real] = 4
   \<and> 5 \<le> length [0, 1/4, 1/2, 3/4, 1 :: real]
   \<and> (\<exists>X. Eq_candidate_3_players [0, 1/2, 1] 1 = Inr (PyList X) \<and> length X = 3)
   \<and> (\<exists>X. Eq_candidate_4_players [0, 1/3, 2/3, 1] 1 = Inr X \<and> length X = 4)
   \<and> (\<exists>X. Eq_candidate_n_players [0, 1/4, 1/2, 3/4, 1] 1 = Inr X
          \<and> length X = length [0, 1/4, 1/2, 3/4, 1 :: real])"
  using candidate_builders_result [of 1 "[0, 1/2, 1]" "[0, 1/3, 2/3, 1]" "[0, 1/4, 1/2, 3/4, 1]"]
  by simp

text \<open>
  Claim C2 as stated fails for three players: on the sorted profile \<^verbatim>\<open>[0.5, 0.5, 0.5]\<close>
  with \<^verbatim>\<open>c = 1\<close> the builder returns the string \<^verbatim>\<open>"No Eq"\<close>, not a position vector.
\<close>

theorem Eq_candidate_3_players_all_equal:
  "sorted [1/2, 1/2, 1/2 :: real] \<and> (0::real) < 1
   \<and> Eq_candidate_3_players [1/2, 1/2, 1/2] 1 = Inr (PyStr ''No Eq'')"
  by (simp add: Eq_candidate_3_players_char)

subsection \<open>Interior players sit at their reputation\<close>

text \<open>
  Claim C4.  For \<open>c > 0\<close> and \<open>n \<ge> 5\<close> reputations, the candidate of
  \<^verbatim>\<open>Eq_candidate_n_players\<close> has \<open>X[i] = R[i]\<close> at every interior index \<open>1 \<le> i \<le> n - 2\<close>
  that is not in a clustered boundary pair: index 1 is in the left pair only when
  \<open>R[0] + \<delta> \<ge> R[1]\<close>, index \<open>n - 2\<close> in the right pair only when
  \<open>R[n-1] - \<delta> \<le> R[n-2]\<close>.  Neither sortedness nor the range of the reputations is needed:
  a slot that no boundary rule has written still holds the initial 0 when the final loop
  reaches it.
\<close>

theorem interior_players_at_reputation:
  assumes "0 < c" and "5 \<le> length R" and "1 \<le> i" and "i + 2 \<le> length R"
    and "i = 1 \<longrightarrow> R ! 0 + 1 / (4 * c) < R ! 1"
    and "i = length R - 2 \<longrightarrow> R ! (length R - 1) - 1 / (4 * c) > R ! (length R - 2)"
  shows "\<exists>X. Eq_candidate_n_players R c = Inr X \<and> length X = length R \<and> X ! i = R ! i"
proof -
  from Eq_candidate_n_players_char [OF assms(1,2)] obtain X where
    X: "Eq_candidate_n_players R c = Inr X" "length X = length R"
    and v1: "X ! 1 = (if R ! 0 + 1 / (4 * c) < R ! 1 \<or> R ! 2 / 3 = 0 then R ! 1 else R ! 2 / 3)"
    and v2: "X ! (length R - 2) =
          (if R ! (length R - 1) - 1 / (4 * c) > R ! (length R - 2) \<or> (2 + R ! (length R - 3)) / 3 = 0
           then R ! (length R - 2) else (2 + R ! (length R - 3)) / 3)"
    and vk: "\<forall>k. 2 \<le> k \<and> k + 3 \<le> length R \<longrightarrow> X ! k = R ! k"
    by blast
  consider "i = 1" | "i = length R - 2" | "2 \<le> i \<and> i + 3 \<le> length R"
    using assms(3,4) by linarith
  then have "X ! i = R ! i"
  proof cases
    case 1
    with assms(5) v1 show ?thesis by simp
  next
    case 2
    with assms(6) v2 show ?thesis by simp
  next
    case 3
    with vk show ?thesis by blast
  qed
  with X show ?thesis by blast
qed

theorem interior_players_at_reputation_witness:
  "(0::real) < 1 \<and> 5 \<le> length [0, 1/2, 1/2, 1/2, 1 :: real] \<and> (1::nat) \<le> 1
   \<and> (1::nat) + 2 \<le> length [0, 1/2, 1/2, 1/2, 1 :: real]
   \<and> [0, 1/2, 1/2, 1/2, 1 :: real] ! 0 + 1 / (4 * 1) < [0, 1/2, 1/2, 1/2, 1] ! 1
   \<and> (\<exists>X. Eq_candidate_n_players [0, 1/2, 1/2, 1/2, 1] 1 = Inr X
          \<and> length X = length [0, 1/2, 1/2, 1/2, 1 :: real]
          \<and> X ! 1 = [0, 1/2, 1/2, 1/2, 1] ! 1)"
  using interior_players_at_reputation [of 1 "[0, 1/2, 1/2, 1/2, 1]" 1]
  by simp

subsection \<open>The candidate is non-decreasing\<close>

lemma unit_range_nth:
  assumes "set R \<subseteq> {0..1::real}" and "k < length R"
  shows "0 \<le> R ! k \<and> R ! k \<le> 1"
proof -
  have "R ! k \<in> set R" using assms(2) by simp
  with assms(1) have "R ! k \<in> {0..1}" by blast
  then show ?thesis by simp
qed

lemma candidate_3_sorted:
  assumes c: "0 < c" and s: "sorted R" and u: "set R \<subseteq> {0..1}" and n: "length R = 3"
    and X: "Eq_candidate_3_players R c = Inr (PyList X)"
  shows "length X = 3 \<and> sorted X"
proof -
  have o: "R ! 0 \<le> R ! 1" "R ! 1 \<le> R ! 2"
    using s n by (simp_all add: sorted_nth_mono)
  have b: "0 \<le> R ! 0" "R ! 1 \<le> 1" "0 \<le> R ! 1"
    using unit_range_nth [OF u] n by simp_all
  have d: "0 < 1 / (4 * c)" using c by simp
  from X c n have "X = [R ! 0 + 1 / (4 * c), R ! 1, R ! 2 - 1 / (4 * c)]
        \<and> R ! 0 + 1 / (4 * c) < R ! 1 \<and> R ! 2 - 1 / (4 * c) > R ! 1
      \<or> X = [(R ! 2 - 1 / (4 * c)) / 3, (R ! 2 - 1 / (4 * c)) / 3, R ! 2 - 1 / (4 * c)]
        \<and> R ! 2 - 1 / (4 * c) > R ! 1
      \<or> X = [R ! 0 + 1 / (4 * c), (R ! 0 + 1 / (4 * c) + 2) / 3, (R ! 0 + 1 / (4 * c) + 2) / 3]
        \<and> R ! 0 + 1 / (4 * c) < R ! 1"
    by (simp add: Eq_candidate_3_players_char split: if_splits)
  then show ?thesis
    using o b d by (elim disjE conjE) simp_all
qed

lemma candidate_4_sorted:
  assumes c: "0 < c" and s: "sorted R" and u: "set R \<subseteq> {0..1}" and n: "length R = 4"
  shows "\<exists>X. Eq_candidate_4_players R c = Inr X \<and> length X = 4 \<and> sorted X"
proof -
  have o: "R ! 0 \<le> R ! 1" "R ! 1 \<le> R ! 2" "R ! 2 \<le> R ! 3"
    using s n by (simp_all add: sorted_nth_mono)
  have b: "0 \<le> R ! 2" "R ! 1 \<le> 1"
    using unit_range_nth [OF u] n by simp_all
  show ?thesis
    using c n o b by (simp add: Eq_candidate_4_players_char)
qed

lemma candidate_n_sorted:
  assumes c: "0 < c" and s: "sorted R" and u: "set R \<subseteq> {0..1}" and n: "5 \<le> length R"
  shows "\<exists>X. Eq_candidate_n_players R c = Inr X \<and> length X = length R
           \<and> (\<forall>i. i + 1 < length X \<longrightarrow> X ! i \<le> X ! (i + 1))"
proof -
  define m where "m = length R"
  define d where "d = 1 / (4 * c)"
  have m: "5 \<le> m" using n by (simp add: m_def)
  from Eq_candidate_n_players_char [OF c n] obtain X where
    X: "Eq_candidate_n_players R c = Inr X" "length X = m"
    and v0: "X ! 0 = (if R ! 0 + d < R ! 1 then R ! 0 + d else R ! 2 / 3)"
    and v1: "X ! 1 = (if R ! 0 + d < R ! 1 \<or> R ! 2 / 3 = 0 then R ! 1 else R ! 2 / 3)"
    and v2: "X ! (m - 2) =
          (if R ! (m - 1) - d > R ! (m - 2) \<or> (2 + R ! (m - 3)) / 3 = 0
           then R ! (m - 2) else (2 + R ! (m - 3)) / 3)"
    and v3: "X ! (m - 1) =
          (if R ! (m - 1) - d > R ! (m - 2) then R ! (m - 1) - d else (2 + R ! (m - 3)) / 3)"
    and vk: "\<forall>k. 2 \<le> k \<and> k + 3 \<le> m \<longrightarrow> X ! k = R ! k"
    unfolding m_def d_def by blast
  have mono: "\<And>i j. i \<le> j \<Longrightarrow> j < m \<Longrightarrow> R ! i \<le> R ! j"
    using s by (simp add: sorted_nth_mono m_def)
  have rng: "\<And>k. k < m \<Longrightarrow> 0 \<le> R ! k \<and> R ! k \<le> 1"
    using unit_range_nth [OF u] by (simp add: m_def)
  have "\<forall>i. i + 1 < length X \<longrightarrow> X ! i \<le> X ! (i + 1)"
  proof (intro allI impI)
    fix i assume "i + 1 < length X"
    then have i: "i + 1 < m" using X(2) by simp
    consider "i = 0" | "i = 1" | "2 \<le> i \<and> i + 4 \<le> m" | "i = m - 3" | "i = m - 2"
      using i by linarith
    then show "X ! i \<le> X ! (i + 1)"
    proof cases
      case 1
      have "R ! 1 \<le> R ! 2" "0 \<le> R ! 1" "0 \<le> R ! 2" using mono [of 1 2] rng [of 1] rng [of 2] m by simp_all
      with 1 v0 v1 show ?thesis by (simp split: if_splits)
    next
      case 2
      have x2: "X ! 2 = R ! 2" using vk m by simp
      have e: "i + 1 = 2" using 2 by simp
      have "R ! 1 \<le> R ! 2" "0 \<le> R ! 2" using mono [of 1 2] rng [of 2] m by simp_all
      with v1 x2 have "X ! 1 \<le> X ! 2" by (simp split: if_splits)
      then show ?thesis unfolding e unfolding 2 .
    next
      case 3
      then have "X ! i = R ! i" "X ! (i + 1) = R ! (i + 1)" using vk by simp_all
      moreover have "R ! i \<le> R ! (i + 1)" using mono [of i "i + 1"] i by simp
      ultimately show ?thesis by simp
    next
      case 4
      have e: "m - 3 + 1 = m - 2" using m by simp
      have x: "X ! (m - 3) = R ! (m - 3)" using vk m by simp
      have "R ! (m - 3) \<le> R ! (m - 2)" "R ! (m - 3) \<le> 1"
        using mono [of "m - 3" "m - 2"] rng [of "m - 3"] m by simp_all
      with 4 v2 x e show ?thesis by (simp split: if_splits)
    next
      case 5
      have e: "m - 2 + 1 = m - 1" using m by simp
      have "0 \<le> R ! (m - 3)" using rng [of "m - 3"] m by simp
      with 5 v2 v3 e show ?thesis by (simp split: if_splits)
    qed
  qed
  with X show ?thesis by (auto simp: m_def)
qed

text \<open>
  Claim C3.  For \<open>c > 0\<close> and \<open>n\<close> sorted reputations in \<open>[0,1]\<close>, every position
  vector \<open>X\<close> a builder produces has length \<open>n\<close> and is non-decreasing,
  \<open>X[i] \<le> X[i+1]\<close> for all \<open>i\<close> from 0 to \<open>n - 2\<close>: whenever
  \<^verbatim>\<open>Eq_candidate_3_players\<close> returns a list (\<open>n = 3\<close>), and always for
  \<^verbatim>\<open>Eq_candidate_4_players\<close> (\<open>n = 4\<close>) and \<^verbatim>\<open>Eq_candidate_n_players\<close> (\<open>n \<ge> 5\<close>), which
  return a list on every such input.
\<close>

theorem candidates_nondecreasing:
  assumes "0 < c"
    and "sorted R3" and "set R3 \<subseteq> {0..1}" and "length R3 = 3"
    and "sorted R4" and "set R4 \<subseteq> {0..1}" and "length R4 = 4"
    and "sorted Rn" and "set Rn \<subseteq> {0..1}" and "5 \<le> length Rn"
  shows "(\<forall>X. Eq_candidate_3_players R3 c = Inr (PyList X)
              \<longrightarrow> length X = 3 \<and> (\<forall>i. i + 1 < length X \<longrightarrow> X ! i \<le> X ! (i + 1)))
       \<and> (\<exists>X. Eq_candidate_4_players R4 c = Inr X \<and> length X = 4
              \<and> (\<forall>i. i + 1 < length X \<longrightarrow> X ! i \<le> X ! (i + 1)))
       \<and> (\<exists>X. Eq_candidate_n_players Rn c = Inr X \<and> length X = length Rn
              \<and> (\<forall>i. i + 1 < length X \<longrightarrow> X ! i \<le> X ! (i + 1)))"
proof -
  have three: "\<forall>X. Eq_candidate_3_players R3 c = Inr (PyList X)
              \<longrightarrow> length X = 3 \<and> (\<forall>i. i + 1 < length X \<longrightarrow> X ! i \<le> X ! (i + 1))"
    using candidate_3_sorted [OF assms(1-4)] by (simp add: sorted_iff_nth_Suc)
  have four: "\<exists>X. Eq_candidate_4_players R4 c = Inr X \<and> length X = 4
              \<and> (\<forall>i. i + 1 < length X \<longrightarrow> X ! i \<le> X ! (i + 1))"
    using candidate_4_sorted [OF assms(1) assms(5-7)] by (auto simp: sorted_iff_nth_Suc)
  have many: "\<exists>X. Eq_candidate_n_players Rn c = Inr X \<and> length X = length Rn
              \<and> (\<forall>i. i + 1 < length X \<longrightarrow> X ! i \<le> X ! (i + 1))"
    using candidate_n_sorted [OF assms(1) assms(8-10)] by blast
  from three four many show ?thesis by blast
qed

theorem candidates_nondecreasing_witness:
  "(0::real) < 1
   \<and> sorted [0, 1/2, 1 :: real] \<and> set [0, 1/2, 1 :: real] \<subseteq> {0..1}
   \<and> length [0, 1/2, 1 :: real] = 3
   \<and> sorted [0, 1/4, 3/4, 1 :: real] \<and> set [0, 1/4, 3/4, 1 :: real] \<subseteq> {0..1}
   \<and> length [0, 1/4, 3/4, 1 :: real] = 4
   \<and> sorted [0, 1/4, 1/2, 3/4, 1 :: real] \<and> set [0, 1/4, 1/2, 3/4, 1 :: real] \<subseteq> {0..1}
   \<and> 5 \<le> length [0, 1/4, 1/2, 3/4, 1 :: real]
   \<and> (\<exists>X. Eq_candidate_3_players [0, 1/2, 1] 1 = Inr (PyList X) \<and> length X = 3
          \<and> (\<forall>i. i + 1 < length X \<longrightarrow> X ! i \<le> X ! (i + 1)))
   \<and> (\<exists>X. Eq_candidate_4_players [0, 1/4, 3/4, 1] 1 = Inr X \<and> length X = 4
          \<and> (\<forall>i. i + 1 < length X \<longrightarrow> X ! i \<le> X ! (i + 1)))
   \<and> (\<exists>X. Eq_candidate_n_players [0, 1/4, 1/2, 3/4, 1] 1 = Inr X
          \<and> length X = length [0, 1/4, 1/2, 3/4, 1 :: real]
          \<and> (\<forall>i. i + 1 < length X \<longrightarrow> X ! i \<le> X ! (i + 1)))"
proof -
  have h0: "(0::real) < 1" by simp
  have h3: "sorted [0, 1/2, 1 :: real]" "set [0, 1/2, 1 :: real] \<subseteq> {0..1}"
    "length [0, 1/2, 1 :: real] = 3" by simp_all
  have h4: "sorted [0, 1/4, 3/4, 1 :: real]" "set [0, 1/4, 3/4, 1 :: real] \<subseteq> {0..1}"
    "length [0, 1/4, 3/4, 1 :: real] = 4" by simp_all
  have hn: "sorted [0, 1/4, 1/2, 3/4, 1 :: real]" "set [0, 1/4, 1/2, 3/4, 1 :: real] \<subseteq> {0..1}"
    "5 \<le> length [0, 1/4, 1/2, 3/4, 1 :: real]" by simp_all
  note t = candidates_nondecreasing [OF h0 h3 h4 hn]
  have c3: "Eq_candidate_3_players [0, 1/2, 1] 1 = Inr (PyList [1/4, 1/2, 3/4])"
    by (simp add: Eq_candidate_3_players_char)
  from t c3 have "\<exists>X. Eq_candidate_3_players [0, 1/2, 1] 1 = Inr (PyList X) \<and> length X = 3
          \<and> (\<forall>i. i + 1 < length X \<longrightarrow> X ! i \<le> X ! (i + 1))"
    by blast
  with t h0 h3 h4 hn show ?thesis by blast
qed

subsection \<open>The embedded verifier computes the menu check\<close>

text \<open>
  With all indices in range and no square overflowing, each block of the embedded verifier
  returns without raising, and what it returns is whether its part of the deviation menu
  holds a strictly profitable entry.  The facts below lead to \<open>verifier_body\<close>: the sequence of checks shared by the
  verifiers returns \<^verbatim>\<open>"No Eq"\<close> exactly when a clustered pair is inconsistent or the menu
  holds a strictly profitable deviation.
\<close>

lemma combinators_Inr:
  "orE (Inr a) (Inr b) = Inr (a \<or> b)"
  "andE (Inr a) (Inr b) = Inr (a \<and> b)"
  "unlessE (Inr a) (Inr b) = Inr (\<not> a \<and> b)"
  "thenE (Inr a) r = (if a then Inr ''No Eq'' else r)"
  "gtE (Inr v) u = Inr (u < v)"
  by (simp_all add: orE_def andE_def unlessE_def thenE_def gtE_def)

lemma getE_int: "k < length xs \<Longrightarrow> getE xs (int k) = Inr (xs ! k)"
  by (simp add: getE_in_range)













lemma getE_literal:
  "xs \<noteq> [] \<Longrightarrow> getE xs 0 = Inr (xs ! 0)"
  "1 < length xs \<Longrightarrow> getE xs 1 = Inr (xs ! 1)"
  "2 < length xs \<Longrightarrow> getE xs 2 = Inr (xs ! 2)"
  using getE_int [of 0 xs] getE_int [of 1 xs] getE_int [of 2 xs] by simp_all

lemma getE_from_end:
  assumes "k \<le> length xs" and "1 \<le> k"
  shows "getE xs (int (length xs) - int k) = Inr (xs ! (length xs - k))"
proof -
  have "int (length xs) - int k = int (length xs - k)" using assms by simp
  moreover have "length xs - k < length xs" using assms by simp
  ultimately show ?thesis by (simp only: getE_int)
qed












lemma consistency_char:
  assumes n: "2 \<le> length X" and R: "length R = length X"
  shows "consistency_left X R delta =
           Inr (X ! 0 = X ! 1 \<and> (X ! 0 < R ! 1 \<or> X ! 0 > R ! 0 + delta))"
    and "consistency_right X R delta (int (length X)) =
           Inr (X ! (length X - 2) = X ! (length X - 1)
                \<and> (X ! (length X - 1) < R ! (length X - 1) - delta
                    \<or> R ! (length X - 2) < X ! (length X - 1)))"
proof -
  from n have ne: "X \<noteq> []" "R \<noteq> []" using R by auto
  have g: "getE X (int (length X) - 1) = Inr (X ! (length X - 1))"
    "getE X (int (length X) - 2) = Inr (X ! (length X - 2))"
    "getE R (int (length X) - 1) = Inr (R ! (length X - 1))"
    "getE R (int (length X) - 2) = Inr (R ! (length X - 2))"
    using getE_from_end [of 1 X] getE_from_end [of 2 X] getE_from_end [of 1 R]
      getE_from_end [of 2 R] n R by simp_all
  show "consistency_left X R delta =
           Inr (X ! 0 = X ! 1 \<and> (X ! 0 < R ! 1 \<or> X ! 0 > R ! 0 + delta))"
    using n R ne by (simp add: consistency_left_def eqE_def getE_literal combinators_Inr)
  show "consistency_right X R delta (int (length X)) =
           Inr (X ! (length X - 2) = X ! (length X - 1)
                \<and> (X ! (length X - 1) < R ! (length X - 1) - delta
                    \<or> R ! (length X - 2) < X ! (length X - 1)))"
    by (simp add: consistency_right_def eqE_def g combinators_Inr)
qed









subsection \<open>Evaluation on concrete profiles of five players\<close>

lemma squareE_large: "2 ^ 512 \<le> \<bar>x\<bar> \<Longrightarrow> squareE x = Inl OverflowError"
proof -
  assume "2 ^ 512 \<le> \<bar>x\<bar>"
  then have "(2 ^ 512)\<^sup>2 \<le> \<bar>x\<bar>\<^sup>2" by (intro power_mono) simp_all
  then have "(2::real) ^ 1024 \<le> x\<^sup>2" by simp
  then have "float_overflow_bound \<le> x\<^sup>2" by (simp add: float_overflow_bound_def)
  then show ?thesis by (simp add: squareE_def)
qed

lemmas candidate_eval = Eq_candidate_n_players_def left_end_def right_end_def delta_distance_def
  getE_def setE_def py_index_def upto.simps

lemmas verifier_eval = equilibrium_n_players_def delta_distance_def consistency_left_def
  consistency_right_def player_1_n_def player_n_n_def interior_player_def
  eqE_def neqE_def gtE_def getE_def py_index_def pay_single_left_def pay_paired_left_def
  pay_single_right_def pay_paired_right_def pay_interior_def dev_left_def dev_right_def
  gap_left_def gap_right_def squareE_small squareE_large upto.simps power2_eq_square

lemma cand_a: "Eq_candidate_n_players [1/6, 1/6, 1/2, 5/6, 5/6] 1 = Inr [1/6, 1/6, 1/2, 5/6, 5/6]"
  by (simp add: candidate_eval)

lemma verdict_a: "equilibrium_n_players [1/6, 1/6, 1/2, 5/6, 5/6] 1 = Inr ''Eq''"
  by (simp add: verifier_eval cand_a)

lemma cand_b:
  "Eq_candidate_n_players [1/8, 1/8, 3/8, 7/8, 1] 1 = Inr [1/8, 1/8, 3/8, 19/24, 19/24]"
  by (simp add: candidate_eval)

lemma consistency_b:
  "consistency_left [1/8, 1/8, 3/8, 19/24, 19/24] [1/8, 1/8, 3/8, 7/8, 1] (1 / 4) = Inr False"
  "consistency_right [1/8, 1/8, 3/8, 19/24, 19/24] [1/8, 1/8, 3/8, 7/8, 1] (1 / 4) 5 = Inr False"
  by (simp_all add: consistency_left_def consistency_right_def eqE_def getE_def py_index_def)

lemma verdict_b: "equilibrium_n_players [1/8, 1/8, 3/8, 7/8, 1] 1 = Inr ''No Eq''"
  by (simp add: verifier_eval cand_b)

lemma cand_c:
  "Eq_candidate_n_players [1/4, 1/2, 9/16, 5/8, 1] 1 = Inr [3/16, 3/16, 9/16, 5/8, 3/4]"
  by (simp add: candidate_eval)

lemma cand_d:
  "Eq_candidate_n_players [1/8, 1/8, 3/8, 1/2, 1] 1 = Inr [1/8, 1/8, 3/8, 1/2, 3/4]"
  by (simp add: candidate_eval)

lemma verdict_d: "equilibrium_n_players [1/8, 1/8, 3/8, 1/2, 1] 1 = Inr ''Eq''"
  by (simp add: verifier_eval cand_d)

lemma tie_d:
  "pay_interior [1/8, 1/8, 3/8, 1/2, 3/4] 3 = Inr (3 / 16)"
  "dev_right [1/8, 1/8, 3/8, 1/2, 3/4] [1/8, 1/8, 3/8, 1/2, 1] 1 5 3 = Inr (3 / 16)"
  by (simp_all add: pay_interior_def dev_right_def getE_def py_index_def squareE_small
      power2_eq_square)


subsection \<open>The verifier for five players and more is total on valid profiles\<close>




subsection \<open>The cluster-consistency checks\<close>

text \<open>
  Claim C5, as amended.  For \<open>c > 0\<close> and a sorted profile of \<open>n \<ge> 5\<close> reputations with
  candidate \<open>X\<close>, the left check rejects exactly when \<open>X[0] = X[1]\<close> and the shared value
  is below \<open>R[1]\<close> or above \<open>R[0] + \<delta>\<close>, and the right check rejects exactly when
  \<open>X[n-2] = X[n-1]\<close> and the shared value is below \<open>R[n-1] - \<delta>\<close> or above \<open>R[n-2]\<close>.  When
  one of them rejects, \<^verbatim>\<open>equilibrium_n_players\<close> returns \<^verbatim>\<open>"No Eq"\<close>, whatever the deviation
  payoffs are: the checks come first.  The comparisons with \<open>R[1]\<close> and \<open>R[n-2]\<close> are strict
  in the rejecting direction: a shared value equal to \<open>R[1]\<close> and not above \<open>R[0] + \<delta>\<close>
  passes the left check, and a shared value equal to \<open>R[n-2]\<close> and not below
  \<open>R[n-1] - \<delta>\<close> passes the right check.
\<close>

theorem cluster_consistency_rejects:
  assumes "0 < c" and "5 \<le> length R" and "sorted R"
    and "Eq_candidate_n_players R c = Inr X"
  shows "consistency_left X R (1 / (4 * c)) =
           Inr (X ! 0 = X ! 1 \<and> (X ! 0 < R ! 1 \<or> X ! 0 > R ! 0 + 1 / (4 * c)))
       \<and> consistency_right X R (1 / (4 * c)) (int (length R)) =
           Inr (X ! (length R - 2) = X ! (length R - 1)
                \<and> (X ! (length R - 1) < R ! (length R - 1) - 1 / (4 * c)
                    \<or> R ! (length R - 2) < X ! (length R - 1)))
       \<and> ((X ! 0 = X ! 1 \<and> (X ! 0 < R ! 1 \<or> X ! 0 > R ! 0 + 1 / (4 * c)))
            \<or> (X ! (length R - 2) = X ! (length R - 1)
                \<and> (X ! (length R - 1) < R ! (length R - 1) - 1 / (4 * c)
                    \<or> R ! (length R - 2) < X ! (length R - 1)))
           \<longrightarrow> equilibrium_n_players R c = Inr ''No Eq'')
       \<and> (X ! 0 = R ! 1 \<and> X ! 0 \<le> R ! 0 + 1 / (4 * c)
           \<longrightarrow> consistency_left X R (1 / (4 * c)) = Inr False)
       \<and> (X ! (length R - 1) = R ! (length R - 2)
            \<and> R ! (length R - 1) - 1 / (4 * c) \<le> X ! (length R - 1)
           \<longrightarrow> consistency_right X R (1 / (4 * c)) (int (length R)) = Inr False)"
proof -
  have s: "sort R = R" using assms(3) by (rule sorted_sort_id)
  from Eq_candidate_n_players_char [OF assms(1,2)] assms(4)
  have len: "length X = length R" by auto
  then have two: "2 \<le> length X" and R: "length R = length X" using assms(2) by simp_all
  have d: "delta_distance c = Inr (1 / (4 * c))" using assms(1) by (simp add: delta_distance_def)
  note cl = consistency_char(1) [OF two R, of "1 / (4 * c)"]
  note cr = consistency_char(2) [OF two R, of "1 / (4 * c)", unfolded len]
  have rej: "equilibrium_n_players R c = Inr ''No Eq''"
    if "(X ! 0 = X ! 1 \<and> (X ! 0 < R ! 1 \<or> X ! 0 > R ! 0 + 1 / (4 * c)))
            \<or> (X ! (length R - 2) = X ! (length R - 1)
                \<and> (X ! (length R - 1) < R ! (length R - 1) - 1 / (4 * c)
                    \<or> R ! (length R - 2) < X ! (length R - 1)))"
    unfolding equilibrium_n_players_def Let_def s assms(4) d bindE_Inr len cl cr
    using that by (auto simp: combinators_Inr)
  have pl: "consistency_left X R (1 / (4 * c)) = Inr False"
    if "X ! 0 = R ! 1 \<and> X ! 0 \<le> R ! 0 + 1 / (4 * c)"
    unfolding cl using that by auto
  have pr: "consistency_right X R (1 / (4 * c)) (int (length R)) = Inr False"
    if "X ! (length R - 1) = R ! (length R - 2)
            \<and> R ! (length R - 1) - 1 / (4 * c) \<le> X ! (length R - 1)"
    unfolding cr using that by auto
  from cl cr rej pl pr show ?thesis by blast
qed

theorem cluster_consistency_rejects_witness:
  "(0::real) < 1 \<and> 5 \<le> length [1/4, 1/2, 9/16, 5/8, 1 :: real]
   \<and> sorted [1/4, 1/2, 9/16, 5/8, 1 :: real]
   \<and> Eq_candidate_n_players [1/4, 1/2, 9/16, 5/8, 1] 1 = Inr [3/16, 3/16, 9/16, 5/8, 3/4]
   \<and> [3/16, 3/16, 9/16, 5/8, 3/4 :: real] ! 0 = [3/16, 3/16, 9/16, 5/8, 3/4] ! 1
   \<and> [3/16, 3/16, 9/16, 5/8, 3/4 :: real] ! 0 < [1/4, 1/2, 9/16, 5/8, 1] ! 1
   \<and> consistency_left [3/16, 3/16, 9/16, 5/8, 3/4] [1/4, 1/2, 9/16, 5/8, 1] (1 / (4 * 1))
        = Inr True
   \<and> equilibrium_n_players [1/4, 1/2, 9/16, 5/8, 1] 1 = Inr ''No Eq''"
proof -
  have h: "(0::real) < 1" "5 \<le> length [1/4, 1/2, 9/16, 5/8, 1 :: real]"
    "sorted [1/4, 1/2, 9/16, 5/8, 1 :: real]" by simp_all
  have v: "[3/16, 3/16, 9/16, 5/8, 3/4 :: real] ! 0 = [3/16, 3/16, 9/16, 5/8, 3/4] ! 1"
    "[3/16, 3/16, 9/16, 5/8, 3/4 :: real] ! 0 < [1/4, 1/2, 9/16, 5/8, 1] ! 1" by simp_all
  note t = cluster_consistency_rejects [OF h cand_c]
  from t v have "consistency_left [3/16, 3/16, 9/16, 5/8, 3/4] [1/4, 1/2, 9/16, 5/8, 1] (1 / (4 * 1))
        = Inr True"
    by simp
  moreover from t v have "equilibrium_n_players [1/4, 1/2, 9/16, 5/8, 1] 1 = Inr ''No Eq''"
    by blast
  ultimately show ?thesis using h v cand_c by blast
qed

text \<open>
  Claim C5 as stated asks for rejection whenever the strict ordering \<open>R[1] < X[0]\<close> is
  violated.  On \<^verbatim>\<open>R = [1/6, 1/6, 1/2, 5/6, 5/6]\<close> with \<^verbatim>\<open>c = 1\<close> the left pair is clustered
  at \<open>X[0] = X[1] = 1/6 = R[1]\<close>, so \<open>R[1] < X[0]\<close> does not hold, and the verdict is
  \<^verbatim>\<open>"Eq"\<close>.
\<close>

theorem equilibrium_n_players_cluster_at_reputation:
  "sorted [1/6, 1/6, 1/2, 5/6, 5/6 :: real]
   \<and> Eq_candidate_n_players [1/6, 1/6, 1/2, 5/6, 5/6] 1 = Inr [1/6, 1/6, 1/2, 5/6, 5/6]
   \<and> [1/6, 1/6, 1/2, 5/6, 5/6 :: real] ! 0 = [1/6, 1/6, 1/2, 5/6, 5/6] ! 1
   \<and> \<not> ([1/6, 1/6, 1/2, 5/6, 5/6 :: real] ! 1 < [1/6, 1/6, 1/2, 5/6, 5/6] ! 0)
   \<and> equilibrium_n_players [1/6, 1/6, 1/2, 5/6, 5/6] 1 = Inr ''Eq''"
  using cand_a verdict_a by simp

subsection \<open>Four players with both boundary pairs clustered\<close>

lemma equilibrium_4_players_quad:
  assumes c: "0 < c" and n: "length R = 4" and s: "sorted R"
    and l: "R ! 1 \<le> R ! 0 + 1 / (4 * c)" and r: "R ! 3 - 1 / (4 * c) \<le> R ! 2"
  shows "Eq_candidate_4_players R c = Inr [1 / 4, 1 / 4, 3 / 4, 3 / 4]"
    and "equilibrium_4_players R c =
           Inr (if R ! 1 \<le> 1 / 4 \<and> 1 / 4 \<le> R ! 0 + 1 / (4 * c)
                   \<and> R ! 3 - 1 / (4 * c) \<le> 3 / 4 \<and> 3 / 4 \<le> R ! 2
                then ''Eq'' else ''No Eq'')"
proof -
  define X where "X = [1 / 4, 1 / 4, 3 / 4, 3 / 4 :: real]"
  have srt: "sort R = R" using s by (rule sorted_sort_id)
  show cand: "Eq_candidate_4_players R c = Inr [1 / 4, 1 / 4, 3 / 4, 3 / 4]"
    using c n l r by (simp add: Eq_candidate_4_players_char)
  have d: "delta_distance c = Inr (1 / (4 * c))" using c by (simp add: delta_distance_def)
  have len: "2 \<le> length X" "length R = length X" using n by (simp_all add: X_def)
  have cl: "consistency_left X R (1 / (4 * c)) = Inr (1 / 4 < R ! 1 \<or> 1 / 4 > R ! 0 + 1 / (4 * c))"
    unfolding consistency_char(1) [OF len] by (simp add: X_def)
  have "int (length X) = 4" by (simp add: X_def)
  with consistency_char(2) [OF len, of "1 / (4 * c)"]
  have cr: "consistency_right X R (1 / (4 * c)) 4 =
      Inr (3 / 4 < R ! 3 - 1 / (4 * c) \<or> R ! 2 < 3 / 4)"
    by (simp add: X_def eval_nat_numeral)
  show "equilibrium_4_players R c =
           Inr (if R ! 1 \<le> 1 / 4 \<and> 1 / 4 \<le> R ! 0 + 1 / (4 * c)
                   \<and> R ! 3 - 1 / (4 * c) \<le> 3 / 4 \<and> 3 / 4 \<le> R ! 2
                then ''Eq'' else ''No Eq'')"
    unfolding equilibrium_4_players_def Let_def srt cand d bindE_Inr
    unfolding X_def [symmetric] cl cr
    by (auto simp: combinators_Inr)
qed

lemma equilibrium_3_players_both_paired:
  assumes c: "0 < c" and n: "length R = 3" and s: "sorted R"
    and l: "R ! 1 \<le> R ! 0 + 1 / (4 * c)" and r: "R ! 2 - 1 / (4 * c) \<le> R ! 1"
  shows "equilibrium_3_players R c = Inr ''No Eq''"
proof -
  have srt: "sort R = R" using s by (rule sorted_sort_id)
  have "Eq_candidate_3_players R c = Inr (PyStr ''No Eq'')"
    using c n l r by (simp add: Eq_candidate_3_players_char)
  then show ?thesis by (simp add: equilibrium_3_players_def srt)
qed

text \<open>
  Claim C9.  For \<open>c > 0\<close> and four sorted reputations with \<open>R[0] + \<delta> \<ge> R[1]\<close> and
  \<open>R[3] - \<delta> \<le> R[2]\<close>, the candidate is \<^verbatim>\<open>[0.25, 0.25, 0.75, 0.75]\<close> and the verdict of
  \<^verbatim>\<open>equilibrium_4_players\<close> is decided by the two cluster-consistency checks alone: it is
  \<^verbatim>\<open>"Eq"\<close> exactly when 0.25 lies in \<open>[R[1], R[0] + \<delta>]\<close> and 0.75 lies in
  \<open>[R[3] - \<delta>, R[2]]\<close>; no deviation payoff enters.  The other verifiers have no such
  exit to \<^verbatim>\<open>"Eq"\<close>: with three players and both pairs clustered the verdict is always
  \<^verbatim>\<open>"No Eq"\<close>, and with five players there is a profile (\<^verbatim>\<open>[0.125, 0.125, 0.375, 0.875, 1]\<close>,
  \<^verbatim>\<open>c = 1\<close>) whose candidate has both boundary pairs clustered and passes both
  consistency checks, and whose verdict is still \<^verbatim>\<open>"No Eq"\<close>, because a deviation is
  evaluated and found profitable.
\<close>

theorem equilibrium_4_players_both_paired:
  assumes "0 < c"
    and "sorted R4" and "length R4 = 4"
    and "R4 ! 1 \<le> R4 ! 0 + 1 / (4 * c)" and "R4 ! 3 - 1 / (4 * c) \<le> R4 ! 2"
    and "sorted R3" and "length R3 = 3"
    and "R3 ! 1 \<le> R3 ! 0 + 1 / (4 * c)" and "R3 ! 2 - 1 / (4 * c) \<le> R3 ! 1"
  shows "Eq_candidate_4_players R4 c = Inr [1 / 4, 1 / 4, 3 / 4, 3 / 4]
       \<and> equilibrium_4_players R4 c =
           Inr (if R4 ! 1 \<le> 1 / 4 \<and> 1 / 4 \<le> R4 ! 0 + 1 / (4 * c)
                   \<and> R4 ! 3 - 1 / (4 * c) \<le> 3 / 4 \<and> 3 / 4 \<le> R4 ! 2
                then ''Eq'' else ''No Eq'')
       \<and> equilibrium_3_players R3 c = Inr ''No Eq''
       \<and> (\<exists>X. Eq_candidate_n_players [1/8, 1/8, 3/8, 7/8, 1] 1 = Inr X
             \<and> X ! 0 = X ! 1 \<and> X ! 3 = X ! 4
             \<and> consistency_left X [1/8, 1/8, 3/8, 7/8, 1] (1 / 4) = Inr False
             \<and> consistency_right X [1/8, 1/8, 3/8, 7/8, 1] (1 / 4) 5 = Inr False)
       \<and> equilibrium_n_players [1/8, 1/8, 3/8, 7/8, 1] 1 = Inr ''No Eq''"
proof -
  have five: "\<exists>X. Eq_candidate_n_players [1/8, 1/8, 3/8, 7/8, 1] 1 = Inr X
             \<and> X ! 0 = X ! 1 \<and> X ! 3 = X ! 4
             \<and> consistency_left X [1/8, 1/8, 3/8, 7/8, 1] (1 / 4) = Inr False
             \<and> consistency_right X [1/8, 1/8, 3/8, 7/8, 1] (1 / 4) 5 = Inr False"
    using cand_b consistency_b by simp
  from equilibrium_4_players_quad [OF assms(1) assms(3) assms(2) assms(4,5)]
    equilibrium_3_players_both_paired [OF assms(1) assms(7) assms(6) assms(8,9)]
    five verdict_b
  show ?thesis by blast
qed

theorem equilibrium_4_players_both_paired_witness:
  "(0::real) < 1
   \<and> sorted [1/8, 1/8, 7/8, 1 :: real] \<and> length [1/8, 1/8, 7/8, 1 :: real] = 4
   \<and> [1/8, 1/8, 7/8, 1 :: real] ! 1 \<le> [1/8, 1/8, 7/8, 1] ! 0 + 1 / (4 * 1)
   \<and> [1/8, 1/8, 7/8, 1 :: real] ! 3 - 1 / (4 * 1) \<le> [1/8, 1/8, 7/8, 1] ! 2
   \<and> sorted [1/2, 1/2, 1/2 :: real] \<and> length [1/2, 1/2, 1/2 :: real] = 3
   \<and> [1/2, 1/2, 1/2 :: real] ! 1 \<le> [1/2, 1/2, 1/2] ! 0 + 1 / (4 * 1)
   \<and> [1/2, 1/2, 1/2 :: real] ! 2 - 1 / (4 * 1) \<le> [1/2, 1/2, 1/2] ! 1
   \<and> Eq_candidate_4_players [1/8, 1/8, 7/8, 1] 1 = Inr [1 / 4, 1 / 4, 3 / 4, 3 / 4]
   \<and> equilibrium_4_players [1/8, 1/8, 7/8, 1] 1 = Inr ''Eq''
   \<and> equilibrium_3_players [1/2, 1/2, 1/2] 1 = Inr ''No Eq''"
  using equilibrium_4_players_both_paired [of 1 "[1/8, 1/8, 7/8, 1]" "[1/2, 1/2, 1/2]"]
  by simp

subsection \<open>Ties between a deviation payoff and the current payoff\<close>

text \<open>
  The verifier for five players and more rejects a deviation only on \<^verbatim>\<open>> payoff\<close>.  On
  \<^verbatim>\<open>R = [0.125, 0.125, 0.375, 0.5, 1]\<close> with \<^verbatim>\<open>c = 1\<close> the candidate is
  \<^verbatim>\<open>[0.125, 0.125, 0.375, 0.5, 0.75]\<close>; Player 4 (index 3) earns 3/16 where it stands and
  exactly 3/16 by moving to the right of Player 5, and the verdict is \<^verbatim>\<open>"Eq"\<close>.
\<close>

lemma equilibrium_n_players_tie_accepted:
  "Eq_candidate_n_players [1/8, 1/8, 3/8, 1/2, 1] 1 = Inr [1/8, 1/8, 3/8, 1/2, 3/4]
   \<and> pay_interior [1/8, 1/8, 3/8, 1/2, 3/4] 3 = Inr (3 / 16)
   \<and> dev_right [1/8, 1/8, 3/8, 1/2, 3/4] [1/8, 1/8, 3/8, 1/2, 1] 1 5 3 = Inr (3 / 16)
   \<and> equilibrium_n_players [1/8, 1/8, 3/8, 1/2, 1] 1 = Inr ''Eq''"
  using cand_d tie_d verdict_d by simp

text \<open>
  Claim C1.  A verifier should reject a candidate only when some deviation payoff strictly
  exceeds the player's current payoff; in particular, \<^verbatim>\<open>equilibrium_2_players\<close> with
  \<open>R[1] - R[0] \<ge> 2 \<delta>\<close> should return \<^verbatim>\<open>"Eq"\<close> when each player's best alternative payoff
  equals its current payoff.  The two-player module does not: it accepts with \<^verbatim>\<open><\<close>.  On
  \<^verbatim>\<open>R = [0.25, 0.75]\<close> with \<^verbatim>\<open>c = 1\<close> the separated branch is taken
  (\<open>R[1] - R[0] = 2 \<delta>\<close>), the candidate is \<^verbatim>\<open>[0.5, 0.5]\<close>, each player's payoff from jumping
  over its rival equals its current payoff (all four are 7/16), and the verdict is
  \<^verbatim>\<open>"No Eq"\<close>.
\<close>

theorem equilibrium_2_players_tie_rejected:
  "2 * (1 / (4 * 1)) \<le> (3 / 4 - 1 / 4 :: real)
   \<and> separated_candidate_2 (sort [1/4, 3/4]) (1 / 4) = Inr [1/2, 1/2]
   \<and> jump_payoff_left_2 1 (1/2) (1/4) = Inr (7 / 16)
   \<and> stay_payoff_left_2 1 (1/2) (1/2) (1/4) = Inr (7 / 16)
   \<and> jump_payoff_right_2 1 (1/2) (3/4) = Inr (7 / 16)
   \<and> stay_payoff_right_2 1 (1/2) (1/2) (3/4) = Inr (7 / 16)
   \<and> equilibrium_2_players [1/4, 3/4] 1 = Inr ''No Eq''"
  by (simp add: delta_distance_def separated_candidate_2_def equilibrium_2_players_def
      getE_def setE_def py_index_def jump_payoff_left_2_def stay_payoff_left_2_def
      jump_payoff_right_2_def stay_payoff_right_2_def squareE_small power2_eq_square)

end
